theory Spec2Isabelle
  imports Complex_Main "HOL-Library.Sublist"
begin


section \<open>The Python run-time the notebooks rely on\<close>

text \<open>
  Both notebooks are Python 2 notebooks (their kernelspec says so): \<open>/\<close> on two Python
  integers is floor division. A library call either returns or raises; a raise is the
  left injection of a sum, and nothing in the notebooks catches it.

  Floating-point arithmetic is not interpreted: the element type of a matrix row, the
  type of a score and the type of a clock reading are type parameters, and the numpy
  operations on them are fields of the library record.
\<close>

datatype py_exn = NotFittedError | IndexError | ValueError | LibraryError string

text \<open>
  The part of the outside world a cell can observe: the wall clock (the reading returned by
  the k-th call of \<open>time()\<close>) and the state of numpy's global generator \<open>np.random\<close>,
  which estimators built with \<open>random_state=None\<close> draw from.
\<close>

record ('t, 'rng) world =
  readings :: "nat \<Rightarrow> 't"
  ticks :: nat
  np_random :: 'rng

definition time :: "('t, 'rng) world \<Rightarrow> 't \<times> ('t, 'rng) world" where
  "time w = (readings w (ticks w), w\<lparr>ticks := Suc (ticks w)\<rparr>)"


section \<open>The kernel-approximation notebook: estimators\<close>

record ('row, 'lab) bunch =
  data :: "'row list"
  target :: "'lab list"

datatype fm_kind = RBFSampler | Nystroem

text \<open>The constructor arguments of a feature map; \<open>n_components\<close> defaults to 100.\<close>

record kernel_map =
  kind :: fm_kind
  gamma :: rat
  random_state :: "int option"
  n_components :: nat

datatype svm_params = SVC rat | LinearSVC

text \<open>
  A two-step \<open>pipeline.Pipeline([("feature_map", ...), ("svm", svm.LinearSVC())])\<close>:
  its parameters and, once fitted, the fitted feature map and the fitted classifier.
\<close>

record ('fm, 'sv) pipeline =
  feature_map :: kernel_map
  svm :: svm_params
  fitted :: "('fm \<times> 'sv) option"

text \<open>
  The library functions the notebook calls. A generator is passed explicitly to the
  functions that draw random numbers and handed back in its new state.
\<close>

record ('row, 'lab, 'fm, 'sv, 'sc, 't, 'rng) sklearn =
  load_digits :: "nat \<Rightarrow> py_exn + ('row, 'lab) bunch"
  scale16 :: "'row \<Rightarrow> 'row"
  mean_axis0 :: "'row list \<Rightarrow> 'row"
  subtract :: "'row \<Rightarrow> 'row \<Rightarrow> 'row"
  fsub :: "'t \<Rightarrow> 't \<Rightarrow> 't"
  RandomState :: "int \<Rightarrow> 'rng"
  fm_fit :: "kernel_map \<Rightarrow> 'rng \<Rightarrow> 'row list \<Rightarrow> (py_exn + 'fm) \<times> 'rng"
  fm_transform :: "'fm \<Rightarrow> 'row list \<Rightarrow> py_exn + 'row list"
  svm_fit :: "svm_params \<Rightarrow> 'rng \<Rightarrow> 'row list \<Rightarrow> 'lab list \<Rightarrow> (py_exn + 'sv) \<times> 'rng"
  svm_score :: "'sv \<Rightarrow> 'row list \<Rightarrow> 'lab list \<Rightarrow> py_exn + 'sc"

text \<open>
  \<open>check_random_state\<close>, as the library documents \<open>random_state\<close>: an integer seeds a
  fresh generator for this one fit and leaves \<open>np.random\<close> alone; \<open>None\<close> draws from
  \<open>np.random\<close> and advances it.
\<close>

definition fit_feature_map ::
  "('row, 'lab, 'fm, 'sv, 'sc, 't, 'rng) sklearn \<Rightarrow> kernel_map \<Rightarrow> 'row list \<Rightarrow>
   ('t, 'rng) world \<Rightarrow> (py_exn + 'fm) \<times> ('t, 'rng) world" where
  "fit_feature_map lib p X w =
     (case random_state p of
        Some seed \<Rightarrow> (fst (fm_fit lib p (RandomState lib seed) X), w)
      | None \<Rightarrow> (let (r, g) = fm_fit lib p (np_random w) X in (r, w\<lparr>np_random := g\<rparr>)))"

text \<open>\<open>svm.SVC(gamma=.2)\<close> and \<open>svm.LinearSVC()\<close> are built with \<open>random_state=None\<close>.\<close>

definition estimator_fit ::
  "('row, 'lab, 'fm, 'sv, 'sc, 't, 'rng) sklearn \<Rightarrow> svm_params \<Rightarrow> 'row list \<Rightarrow> 'lab list \<Rightarrow>
   ('t, 'rng) world \<Rightarrow> py_exn + ('sv \<times> ('t, 'rng) world)" where
  "estimator_fit lib p X y w =
     (let (r, g) = svm_fit lib p (np_random w) X y
      in case r of Inl e \<Rightarrow> Inl e | Inr sv \<Rightarrow> Inr (sv, w\<lparr>np_random := g\<rparr>))"

text \<open>\<open>Pipeline.fit(X, y)\<close>: fit the feature map, transform X with it, fit the classifier.\<close>

definition pipeline_fit ::
  "('row, 'lab, 'fm, 'sv, 'sc, 't, 'rng) sklearn \<Rightarrow> ('fm, 'sv) pipeline \<Rightarrow> 'row list \<Rightarrow> 'lab list \<Rightarrow>
   ('t, 'rng) world \<Rightarrow> py_exn + (('fm, 'sv) pipeline \<times> ('t, 'rng) world)" where
  "pipeline_fit lib p X y w =
     (case fit_feature_map lib (feature_map p) X w of
        (Inl e, w1) \<Rightarrow> Inl e
      | (Inr fm, w1) \<Rightarrow>
          (case fm_transform lib fm X of
             Inl e \<Rightarrow> Inl e
           | Inr Xt \<Rightarrow>
               (case estimator_fit lib (svm p) Xt y w1 of
                  Inl e \<Rightarrow> Inl e
                | Inr (sv, w2) \<Rightarrow> Inr (p\<lparr>fitted := Some (fm, sv)\<rparr>, w2))))"

text \<open>\<open>Pipeline.score(X, y)\<close>: transform X with the fitted feature map, score the classifier.\<close>

definition pipeline_score ::
  "('row, 'lab, 'fm, 'sv, 'sc, 't, 'rng) sklearn \<Rightarrow> ('fm, 'sv) pipeline \<Rightarrow> 'row list \<Rightarrow> 'lab list \<Rightarrow>
   py_exn + 'sc" where
  "pipeline_score lib p X y =
     (case fitted p of
        None \<Rightarrow> Inl NotFittedError
      | Some (fm, sv) \<Rightarrow>
          (case fm_transform lib fm X of
             Inl e \<Rightarrow> Inl e
           | Inr Xt \<Rightarrow> svm_score lib sv Xt y))"

text \<open>\<open>set_params(feature_map__n_components=D)\<close>\<close>

definition set_params_n_components :: "nat \<Rightarrow> ('fm, 'sv) pipeline \<Rightarrow> ('fm, 'sv) pipeline" where
  "set_params_n_components D p = p\<lparr>feature_map := (feature_map p)\<lparr>n_components := D\<rparr>\<rparr>"

definition feature_map_fourier :: kernel_map where
  "feature_map_fourier =
     \<lparr>kind = RBFSampler, gamma = 2 / 10, random_state = Some 1, n_components = 100\<rparr>"

definition feature_map_nystroem :: kernel_map where
  "feature_map_nystroem =
     \<lparr>kind = Nystroem, gamma = 2 / 10, random_state = Some 1, n_components = 100\<rparr>"


section \<open>The kernel-approximation notebook: the Calculations cell\<close>

text \<open>
  \<^verbatim>\<open>n_samples = len(digits.data)\<close>, \<^verbatim>\<open>data = digits.data / 16.\<close>,
  \<^verbatim>\<open>data -= data.mean(axis=0)\<close>: both numpy operations work row by row.
\<close>

definition centred_data ::
  "('row, 'lab, 'fm, 'sv, 'sc, 't, 'rng) sklearn \<Rightarrow> ('row, 'lab) bunch \<Rightarrow> 'row list" where
  "centred_data lib digits =
     (let scaled = map (scale16 lib) (data digits)
      in map (\<lambda>row. subtract lib row (mean_axis0 lib scaled)) scaled)"

record ('row, 'lab) split =
  data_train :: "'row list"
  targets_train :: "'lab list"
  data_test :: "'row list"
  targets_test :: "'lab list"

text \<open>
  \<^verbatim>\<open>data[:n_samples / 2]\<close> and \<^verbatim>\<open>data[n_samples / 2:]\<close>: a slice with a bound between 0
  and the length is \<open>take\<close>, respectively \<open>drop\<close>.
\<close>

definition train_test_split ::
  "('row, 'lab, 'fm, 'sv, 'sc, 't, 'rng) sklearn \<Rightarrow> ('row, 'lab) bunch \<Rightarrow> ('row, 'lab) split" where
  "train_test_split lib digits =
     (let n_samples = length (data digits);
          dat = centred_data lib digits
      in \<lparr>data_train = take (n_samples div 2) dat,
          targets_train = take (n_samples div 2) (target digits),
          data_test = drop (n_samples div 2) dat,
          targets_test = drop (n_samples div 2) (target digits)\<rparr>)"

text \<open>\<^verbatim>\<open>sample_sizes = 30 * np.arange(1, 10)\<close>\<close>

definition arange :: "nat \<Rightarrow> nat \<Rightarrow> nat list" where
  "arange start stop = [start..<stop]"

definition sample_sizes :: "nat list" where
  "sample_sizes = map (\<lambda>k. 30 * k) (arange 1 10)"

text \<open>The variables of the cell that the sweep reads and writes.\<close>

record ('fm, 'sv, 'sc, 't, 'rng) calc_state =
  kernel_svm_score :: 'sc
  kernel_svm_time :: 't
  linear_svm_score :: 'sc
  linear_svm_time :: 't
  fourier_approx_svm :: "('fm, 'sv) pipeline"
  nystroem_approx_svm :: "('fm, 'sv) pipeline"
  fourier_scores :: "'sc list"
  nystroem_scores :: "'sc list"
  fourier_times :: "'t list"
  nystroem_times :: "'t list"
  env :: "('t, 'rng) world"

text \<open>
  \<^verbatim>\<open>t = time(); est.fit(data_train, targets_train); score = est.score(data_test, targets_test);
  t = time() - t\<close> for the two classifiers fitted on the untransformed data.
\<close>

definition fit_score_timed ::
  "('row, 'lab, 'fm, 'sv, 'sc, 't, 'rng) sklearn \<Rightarrow> svm_params \<Rightarrow> ('row, 'lab) split \<Rightarrow>
   ('t, 'rng) world \<Rightarrow> py_exn + ('sc \<times> 't \<times> ('t, 'rng) world)" where
  "fit_score_timed lib p sp w =
     (let (start, w1) = time w
      in case estimator_fit lib p (data_train sp) (targets_train sp) w1 of
           Inl e \<Rightarrow> Inl e
         | Inr (sv, w2) \<Rightarrow>
             (case svm_score lib sv (data_test sp) (targets_test sp) of
                Inl e \<Rightarrow> Inl e
              | Inr score \<Rightarrow> (let (stop, w3) = time w2 in Inr (score, fsub lib stop start, w3))))"

text \<open>Everything of the cell between the split and the loop.\<close>

definition baseline ::
  "('row, 'lab, 'fm, 'sv, 'sc, 't, 'rng) sklearn \<Rightarrow> ('row, 'lab) split \<Rightarrow> ('t, 'rng) world \<Rightarrow>
   py_exn + ('fm, 'sv, 'sc, 't, 'rng) calc_state" where
  "baseline lib sp w =
     (case fit_score_timed lib (SVC (2 / 10)) sp w of
        Inl e \<Rightarrow> Inl e
      | Inr (k_score, k_time, w1) \<Rightarrow>
          (case fit_score_timed lib LinearSVC sp w1 of
             Inl e \<Rightarrow> Inl e
           | Inr (l_score, l_time, w2) \<Rightarrow>
               Inr \<lparr>kernel_svm_score = k_score, kernel_svm_time = k_time,
                    linear_svm_score = l_score, linear_svm_time = l_time,
                    fourier_approx_svm =
                      \<lparr>feature_map = feature_map_fourier, svm = LinearSVC, fitted = None\<rparr>,
                    nystroem_approx_svm =
                      \<lparr>feature_map = feature_map_nystroem, svm = LinearSVC, fitted = None\<rparr>,
                    fourier_scores = [], nystroem_scores = [],
                    fourier_times = [], nystroem_times = [],
                    env = w2\<rparr>))"

text \<open>\<^verbatim>\<open>start = time(); p.fit(data_train, targets_train); times.append(time() - start)\<close>\<close>

definition fit_timed ::
  "('row, 'lab, 'fm, 'sv, 'sc, 't, 'rng) sklearn \<Rightarrow> ('fm, 'sv) pipeline \<Rightarrow> ('row, 'lab) split \<Rightarrow>
   ('t, 'rng) world \<Rightarrow> py_exn + (('fm, 'sv) pipeline \<times> 't \<times> ('t, 'rng) world)" where
  "fit_timed lib p sp w =
     (let (start, w1) = time w
      in case pipeline_fit lib p (data_train sp) (targets_train sp) w1 of
           Inl e \<Rightarrow> Inl e
         | Inr (p', w2) \<Rightarrow> (let (stop, w3) = time w2 in Inr (p', fsub lib stop start, w3)))"

text \<open>The body of \<^verbatim>\<open>for D in sample_sizes:\<close>, in the order of the source.\<close>

definition body ::
  "('row, 'lab, 'fm, 'sv, 'sc, 't, 'rng) sklearn \<Rightarrow> ('row, 'lab) split \<Rightarrow> nat \<Rightarrow>
   ('fm, 'sv, 'sc, 't, 'rng) calc_state \<Rightarrow> py_exn + ('fm, 'sv, 'sc, 't, 'rng) calc_state" where
  "body lib sp D s =
     (let fo = set_params_n_components D (fourier_approx_svm s);
          ny = set_params_n_components D (nystroem_approx_svm s)
      in case fit_timed lib ny sp (env s) of
           Inl e \<Rightarrow> Inl e
         | Inr (ny', t_ny, w1) \<Rightarrow>
             (case fit_timed lib fo sp w1 of
                Inl e \<Rightarrow> Inl e
              | Inr (fo', t_fo, w2) \<Rightarrow>
                  (case pipeline_score lib fo' (data_test sp) (targets_test sp) of
                     Inl e \<Rightarrow> Inl e
                   | Inr fourier_score \<Rightarrow>
                       (case pipeline_score lib ny' (data_test sp) (targets_test sp) of
                          Inl e \<Rightarrow> Inl e
                        | Inr nystroem_score \<Rightarrow>
                            Inr (s\<lparr>fourier_approx_svm := fo',
                                   nystroem_approx_svm := ny',
                                   nystroem_times := nystroem_times s @ [t_ny],
                                   fourier_times := fourier_times s @ [t_fo],
                                   nystroem_scores := nystroem_scores s @ [nystroem_score],
                                   fourier_scores := fourier_scores s @ [fourier_score],
                                   env := w2\<rparr>)))))"

fun sweep ::
  "('row, 'lab, 'fm, 'sv, 'sc, 't, 'rng) sklearn \<Rightarrow> ('row, 'lab) split \<Rightarrow> nat list \<Rightarrow>
   ('fm, 'sv, 'sc, 't, 'rng) calc_state \<Rightarrow> py_exn + ('fm, 'sv, 'sc, 't, 'rng) calc_state" where
  "sweep lib sp [] s = Inr s"
| "sweep lib sp (D # Ds) s =
     (case body lib sp D s of Inl e \<Rightarrow> Inl e | Inr s' \<Rightarrow> sweep lib sp Ds s')"

text \<open>The whole cell: \<^verbatim>\<open>digits = datasets.load_digits(n_class=9)\<close> comes first.\<close>

definition calculations ::
  "('row, 'lab, 'fm, 'sv, 'sc, 't, 'rng) sklearn \<Rightarrow> ('t, 'rng) world \<Rightarrow>
   py_exn + ('fm, 'sv, 'sc, 't, 'rng) calc_state" where
  "calculations lib w =
     (case load_digits lib 9 of
        Inl e \<Rightarrow> Inl e
      | Inr digits \<Rightarrow>
          (case baseline lib (train_test_split lib digits) w of
             Inl e \<Rightarrow> Inl e
           | Inr s0 \<Rightarrow> sweep lib (train_test_split lib digits) sample_sizes s0))"

text \<open>
  A small instance of the library for evaluating the cell: rows, scores and clock
  readings are integers, labels are natural numbers, a fitted feature map remembers its parameters and the
  generator it was fitted with, and no call raises.
\<close>

definition example_digits :: "(int, nat) bunch" where
  "example_digits = \<lparr>data = [16, 32, 48, 64, 80], target = [0, 1, 2, 3, 4]\<rparr>"

definition example_lib ::
  "(int, nat, kernel_map \<times> nat, int, int, int, nat) sklearn" where
  "example_lib =
     \<lparr>load_digits = (\<lambda>n. Inr example_digits),
      scale16 = (\<lambda>r. r div 16),
      mean_axis0 = (\<lambda>rs. sum_list rs div int (length rs)),
      subtract = (\<lambda>a b. a - b),
      fsub = (\<lambda>a b. a - b),
      RandomState = (\<lambda>seed. nat seed),
      fm_fit = (\<lambda>p g X. (Inr (p, g), Suc g)),
      fm_transform = (\<lambda>fm X. Inr (map (\<lambda>r. r + int (n_components (fst fm))) X)),
      svm_fit = (\<lambda>p g X y. (Inr (int g + sum_list X), Suc g)),
      svm_score = (\<lambda>sv X y. Inr (sv + int (length y)))\<rparr>"

definition example_world :: "nat \<Rightarrow> (int, nat) world" where
  "example_world g = \<lparr>readings = (\<lambda>k. int (k * k)), ticks = 0, np_random = g\<rparr>"


section \<open>The covariance notebook: the contaminated data of one pass\<close>

text \<open>The example settings.\<close>

definition n_samples :: nat where
  "n_samples = 80"

definition n_features :: nat where
  "n_features = 5"

definition repeat :: nat where
  "repeat = 10"

text \<open>
  \<^verbatim>\<open>np.linspace(start, stop, num)\<close>: \<open>num\<close> evenly spaced samples from \<open>start\<close> to
  \<open>stop\<close>. Every level the notebook computes is a multiple of one half, which a binary
  floating-point number holds exactly, so rationals give the values numpy gives.
\<close>

definition linspace :: "rat \<Rightarrow> rat \<Rightarrow> nat \<Rightarrow> rat list" where
  "linspace start stop num =
     map (\<lambda>k. start + of_nat k * ((stop - start) / of_nat (num - 1))) [0..<num]"

text \<open>
  \<^verbatim>\<open>np.concatenate((np.linspace(0, n_samples / 8, 5),
  np.linspace(n_samples / 8, n_samples / 2, 5)[1:-1]))\<close>; the divisions are Python 2
  integer divisions, and \<^verbatim>\<open>[1:-1]\<close> drops the first and the last element.
\<close>

definition range_n_outliers :: "rat list" where
  "range_n_outliers =
     linspace 0 (of_nat (n_samples div 8)) 5 @
     butlast (tl (linspace (of_nat (n_samples div 8)) (of_nat (n_samples div 2)) 5))"

text \<open>
  \<open>n_outliers\<close> is a float, and the notebook uses it as a slice bound and as an array
  dimension. The numpy of the recorded run converts it as \<open>int()\<close> does, rounding
  towards zero, and warns (the transcript of the cell holds the two warnings, for
  the two lines that use it).
\<close>

definition py_int :: "rat \<Rightarrow> int" where
  "py_int x = (if 0 \<le> x then \<lfloor>x\<rfloor> else \<lceil>x\<rceil>)"

text \<open>\<^verbatim>\<open>xs[:k]\<close>: a negative bound counts from the end.\<close>

definition slice_to :: "int \<Rightarrow> 'a list \<Rightarrow> 'a list" where
  "slice_to k xs = (if 0 \<le> k then take (nat k) xs else take (length xs - nat (- k)) xs)"

text \<open>
  The numpy functions of the loop body. \<open>randn\<close> and \<open>permutation\<close> are methods of
  the generator \<open>rng\<close>; \<open>randint\<close> is \<^verbatim>\<open>np.random.randint\<close>, which draws from
  the global generator. \<open>add_offset\<close> is the floating-point addition of an offset row
  to a data row.
\<close>

record ('row, 'rng) numpy =
  random_RandomState :: "int \<Rightarrow> 'rng"
  randn :: "'rng \<Rightarrow> nat \<Rightarrow> nat \<Rightarrow> 'row list \<times> 'rng"
  permutation :: "'rng \<Rightarrow> nat \<Rightarrow> nat list \<times> 'rng"
  randint :: "'rng \<Rightarrow> nat \<Rightarrow> nat \<times> nat \<Rightarrow> int list list \<times> 'rng"
  add_offset :: "'row \<Rightarrow> rat list \<Rightarrow> 'row"

text \<open>
  \<^verbatim>\<open>rng = np.random.RandomState(i * j)\<close>, \<^verbatim>\<open>X = rng.randn(n_samples, n_features)\<close>
  and \<^verbatim>\<open>rng.permutation(n_samples)\<close>: the matrix before any outlier is added, and the
  permutation the outliers are taken from.
\<close>

definition seeded_draws :: "('row, 'rng) numpy \<Rightarrow> nat \<Rightarrow> nat \<Rightarrow> 'row list \<times> nat list" where
  "seeded_draws np i j =
     (let rng = random_RandomState np (int (i * j));
          (X, rng1) = randn np rng n_samples n_features;
          (perm, rng2) = permutation np rng1 n_samples
      in (X, perm))"

text \<open>\<^verbatim>\<open>outliers_index = rng.permutation(n_samples)[:n_outliers]\<close>\<close>

definition outliers_index_of :: "('row, 'rng) numpy \<Rightarrow> nat \<Rightarrow> nat \<Rightarrow> rat \<Rightarrow> nat list" where
  "outliers_index_of np i j n_outliers = slice_to (py_int n_outliers) (snd (seeded_draws np i j))"

text \<open>
  \<^verbatim>\<open>outliers_offset = 10. * (np.random.randint(2, size=(n_outliers, n_features)) - 0.5)\<close>,
  given the state g of the global generator; the offsets are plus or minus 5.
\<close>

definition outliers_offset_of ::
  "('row, 'rng) numpy \<Rightarrow> rat \<Rightarrow> 'rng \<Rightarrow> rat list list \<times> 'rng" where
  "outliers_offset_of np n_outliers g =
     (let (bits, g') = randint np g 2 (nat (py_int n_outliers), n_features)
      in (map (map (\<lambda>b. 10 * (of_int b - 1 / 2))) bits, g'))"

text \<open>
  What the pass holds when the data are ready: \<open>X_contaminated\<close> is the variable X after
  the outliers were added.
\<close>

record ('row, 'rng) contaminated =
  X_contaminated :: "'row list"
  outliers_index :: "nat list"
  outliers_offset :: "rat list list"
  inliers_mask :: "bool list"
  np_random_after :: 'rng

text \<open>
  The data of the pass (i, j), up to \<^verbatim>\<open>inliers_mask[outliers_index] = False\<close>.
  \<^verbatim>\<open>X[outliers_index] += outliers_offset\<close> reads the indexed rows, adds, and writes them
  back; numpy raises on an index outside the matrix and on offsets of another shape.
\<close>

definition generate_data ::
  "('row, 'rng) numpy \<Rightarrow> nat \<Rightarrow> nat \<Rightarrow> rat \<Rightarrow> 'rng \<Rightarrow> py_exn + ('row, 'rng) contaminated" where
  "generate_data np i j n_outliers g =
     (let X0 = fst (seeded_draws np i j);
          idx = outliers_index_of np i j n_outliers;
          (offs, g') = outliers_offset_of np n_outliers g
      in if \<not> list_all (\<lambda>k. k < length X0) idx then Inl IndexError
         else if length offs \<noteq> length idx then Inl ValueError
         else Inr \<lparr>X_contaminated = fold (\<lambda>(k, off) X'. X'[k := add_offset np (X0 ! k) off]) (zip idx offs) X0,
                   outliers_index = idx,
                   outliers_offset = offs,
                   inliers_mask = fold (\<lambda>k m. m[k := False]) idx (replicate n_samples True),
                   np_random_after = g'\<rparr>)"

text \<open>
  The passes of \<^verbatim>\<open>for i, n_outliers in enumerate(range_n_outliers): for j in range(repeat):\<close>
  in the order they run.
\<close>

definition iterations :: "(nat \<times> rat \<times> nat) list" where
  "iterations =
     concat (map (\<lambda>(i, n_outliers). map (\<lambda>j. (i, n_outliers, j)) [0..<repeat])
                 (enumerate 0 range_n_outliers))"

text \<open>
  An instance of numpy for evaluating a pass: a generator is a counter, \<open>randn\<close> fills the
  matrix from it, and \<open>permutation\<close> returns the indices in descending order.
\<close>

definition example_numpy :: "(int, nat) numpy" where
  "example_numpy =
     \<lparr>random_RandomState = (\<lambda>seed. nat seed),
      randn = (\<lambda>g r c. (map (\<lambda>k. int (g + k)) [0..<r], Suc g)),
      permutation = (\<lambda>g n. (rev [0..<n], Suc g)),
      randint = (\<lambda>g h (r, c). (replicate r (replicate c (int (g mod h))), Suc g)),
      add_offset = (\<lambda>row off. row + \<lfloor>sum_list off\<rfloor>)\<rparr>"


section \<open>The scripts as statement lists\<close>

text \<open>
  What a script does step by step: every statement of the source is one \<open>stmt\<close>, in the
  order of the source. A simple statement lists the functions it calls, in the order
  Python (or R) evaluates the calls; a call of a function that the script defines itself
  is one call. A loop lists the calls that compute the sequence it runs over, the length
  of that sequence, and its body. \<open>Try\<close> is Python's \<^verbatim>\<open>try: ... except: ...\<close> (R's
  \<^verbatim>\<open>tryCatch\<close>); \<open>Shell\<close> is IPython's \<^verbatim>\<open>! command\<close>; \<open>Unparsable\<close> is text the
  interpreter cannot read as a statement.
\<close>

datatype stmt =
    Import string
  | Simple "string list"
  | Shell string
  | For "string list" nat "stmt list"
  | Try "stmt list" "stmt list"
  | Def string "stmt list"
  | Unparsable

datatype event = Imported string | Called string | Ran string

datatype outcome = Completed | Raised | SyntaxError

text \<open>
  An import and a call may raise. A shell command may fail, but IPython's \<^verbatim>\<open>!\<close> hands
  the command's output to the cell and raises nothing, whatever the exit status.
\<close>

fun can_raise :: "event \<Rightarrow> bool" where
  "can_raise (Ran c) = False"
| "can_raise e = True"

text \<open>
  A run carries the events so far. The oracle \<open>r\<close> says for each position whether the
  event at that position of the run raises (its cause, a malformed input say, is outside
  the script).
\<close>

definition step :: "(nat \<Rightarrow> bool) \<Rightarrow> event \<Rightarrow> event list \<Rightarrow> outcome \<times> event list" where
  "step r e past =
     (if can_raise e \<and> r (length past) then (Raised, past @ [e]) else (Completed, past @ [e]))"

fun seq ::
  "(event list \<Rightarrow> outcome \<times> event list) list \<Rightarrow> event list \<Rightarrow> outcome \<times> event list" where
  "seq [] past = (Completed, past)"
| "seq (f # fs) past =
     (case f past of (Completed, d) \<Rightarrow> seq fs d | (out, d) \<Rightarrow> (out, d))"

primrec exec :: "(nat \<Rightarrow> bool) \<Rightarrow> stmt \<Rightarrow> event list \<Rightarrow> outcome \<times> event list" where
  "exec r (Import m) = step r (Imported m)"
| "exec r (Simple cs) = seq (map (\<lambda>c. step r (Called c)) cs)"
| "exec r (Shell c) = step r (Ran c)"
| "exec r (For cs n b) =
     seq (map (\<lambda>c. step r (Called c)) cs @ replicate n (seq (map (exec r) b)))"
| "exec r (Try b h) =
     (\<lambda>past. case seq (map (exec r) b) past of
                (Raised, d) \<Rightarrow> seq (map (exec r) h) d
              | (out, d) \<Rightarrow> (out, d))"
| "exec r (Def f b) = (\<lambda>past. (Completed, past))"
| "exec r Unparsable = (\<lambda>past. (SyntaxError, past))"

definition run :: "(nat \<Rightarrow> bool) \<Rightarrow> stmt list \<Rightarrow> outcome \<times> event list" where
  "run r ss = seq (map (exec r) ss) []"

text \<open>
  What it means for a piece of a run that nothing in it catches an exception: the piece
  only adds events, and an event that raises is the last event of the run, which ends
  with the exception.
\<close>

definition uncaught_only ::
  "(nat \<Rightarrow> bool) \<Rightarrow> (event list \<Rightarrow> outcome \<times> event list) \<Rightarrow> bool" where
  "uncaught_only r f =
     (\<forall>past out evs. f past = (out, evs) \<longrightarrow>
        (\<exists>new. evs = past @ new) \<and>
        (\<forall>k. length past \<le> k \<and> k < length evs \<and> can_raise (evs ! k) \<and> r k \<longrightarrow>
           Suc k = length evs \<and> out = Raised))"

text \<open>Whether a statement is, or contains, an exception handler.\<close>

primrec has_try :: "stmt \<Rightarrow> bool" where
  "has_try (Import m) = False"
| "has_try (Simple cs) = False"
| "has_try (Shell c) = False"
| "has_try (For cs n b) = list_ex id (map has_try b)"
| "has_try (Try b h) = True"
| "has_try (Def f b) = list_ex id (map has_try b)"
| "has_try Unparsable = False"

primrec has_unparsable :: "stmt \<Rightarrow> bool" where
  "has_unparsable (Import m) = False"
| "has_unparsable (Simple cs) = False"
| "has_unparsable (Shell c) = False"
| "has_unparsable (For cs n b) = list_ex id (map has_unparsable b)"
| "has_unparsable (Try b h) =
     (list_ex id (map has_unparsable b) \<or> list_ex id (map has_unparsable h))"
| "has_unparsable (Def f b) = list_ex id (map has_unparsable b)"
| "has_unparsable Unparsable = True"

text \<open>The events of a statement when nothing raises.\<close>

primrec events :: "stmt \<Rightarrow> event list" where
  "events (Import m) = [Imported m]"
| "events (Simple cs) = map Called cs"
| "events (Shell c) = [Ran c]"
| "events (For cs n b) = map Called cs @ concat (replicate n (concat (map events b)))"
| "events (Try b h) = concat (map events b)"
| "events (Def f b) = []"
| "events Unparsable = []"

definition events_of :: "stmt list \<Rightarrow> event list" where
  "events_of ss = concat (map events ss)"

text \<open>
  A code cell of a notebook: its statements, and what the notebook file records of its
  last execution.
\<close>

datatype outp =
    ExecuteResult string
  | DisplayData
  | StreamOut string "string list"
  | ErrorOut string

record cell =
  source :: "stmt list"
  execution_count :: "nat option"
  outputs :: "outp list"

fun is_error :: "outp \<Rightarrow> bool" where
  "is_error (ErrorOut name) = True"
| "is_error out = False"

text \<open>A notebook runs its code cells from top to bottom.\<close>

definition program :: "cell list \<Rightarrow> stmt list" where
  "program nb = concat (map source nb)"

text \<open>The kinds of call the specification speaks of.\<close>

definition is_dataset_load :: "event \<Rightarrow> bool" where
  "is_dataset_load e = (case e of Called n \<Rightarrow> take 9 n = ''datasets.'' | _ \<Rightarrow> False)"

definition estimator_classes :: "string list" where
  "estimator_classes =
     [''svm.SVC'', ''svm.LinearSVC'', ''RBFSampler'', ''Nystroem'', ''pipeline.Pipeline'',
      ''PCA'', ''MinCovDet'', ''EmpiricalCovariance'']"

definition is_estimator :: "event \<Rightarrow> bool" where
  "is_estimator e = (case e of Called n \<Rightarrow> n \<in> set estimator_classes | _ \<Rightarrow> False)"

definition is_fit :: "event \<Rightarrow> bool" where
  "is_fit e = (case e of Called n \<Rightarrow> drop (length n - 4) n = ''.fit'' | _ \<Rightarrow> False)"

definition is_plot :: "event \<Rightarrow> bool" where
  "is_plot e = (e = Called ''py.iplot'')"

definition is_publish :: "event \<Rightarrow> bool" where
  "is_publish e = (e = Called ''publisher.publish'')"


text \<open>
  What starts something that runs beside the script. A shell command runs in a child
  process. Of imports and calls, those of the modules that make threads, processes,
  coroutines or asynchronous tasks (Python's and R's) count, by the first component of
  the dotted name.
\<close>

definition concurrency_modules :: "string list" where
  "concurrency_modules =
     [''threading'', ''thread'', ''multiprocessing'', ''subprocess'', ''asyncio'',
      ''concurrent'', ''os'', ''parallel'', ''future'', ''system'', ''system2'']"

definition module_root :: "string \<Rightarrow> string" where
  "module_root n = takeWhile (\<lambda>c. c \<noteq> CHR ''.'') n"

definition creates_task :: "event \<Rightarrow> bool" where
  "creates_task e =
     (case e of
        Ran c \<Rightarrow> True
      | Imported m \<Rightarrow> module_root m \<in> set concurrency_modules
      | Called n \<Rightarrow> module_root n \<in> set concurrency_modules)"


section \<open>The kernel-approximation notebook, cell by cell\<close>

definition kernel_version_cell :: cell where
  "kernel_version_cell =
     \<lparr>source = [Import ''sklearn'', Simple []],
      execution_count = Some 1,
      outputs = [ExecuteResult ''0.18'']\<rparr>"

definition kernel_imports_cell :: cell where
  "kernel_imports_cell =
     \<lparr>source =
        [Import ''plotly.plotly'', Import ''plotly.graph_objs'', Import ''plotly'',
         Import ''numpy'', Import ''time'', Import ''matplotlib.pyplot'', Import ''sklearn'',
         Import ''sklearn.kernel_approximation'', Import ''sklearn.decomposition''],
      execution_count = Some 2,
      outputs = []\<rparr>"

text \<open>
  The Calculations cell. The loop runs once for each element of \<open>sample_sizes\<close>.
\<close>

definition kernel_calculations_cell :: cell where
  "kernel_calculations_cell =
     \<lparr>source =
        [Simple [''print''],
         Simple [''datasets.load_digits''],
         Simple [''len''],
         Simple [],
         Simple [''data.mean''],
         Simple [],
         Simple [],
         Simple [''svm.SVC''],
         Simple [''svm.LinearSVC''],
         Simple [''RBFSampler''],
         Simple [''Nystroem''],
         Simple [''svm.LinearSVC'', ''pipeline.Pipeline''],
         Simple [''svm.LinearSVC'', ''pipeline.Pipeline''],
         Simple [''time''],
         Simple [''kernel_svm.fit''],
         Simple [''kernel_svm.score''],
         Simple [''time''],
         Simple [''time''],
         Simple [''linear_svm.fit''],
         Simple [''linear_svm.score''],
         Simple [''time''],
         Simple [''np.arange''],
         Simple [], Simple [], Simple [], Simple [],
         For [] (length sample_sizes)
           [Simple [''fourier_approx_svm.set_params''],
            Simple [''nystroem_approx_svm.set_params''],
            Simple [''time''],
            Simple [''nystroem_approx_svm.fit''],
            Simple [''time'', ''nystroem_times.append''],
            Simple [''time''],
            Simple [''fourier_approx_svm.fit''],
            Simple [''time'', ''fourier_times.append''],
            Simple [''fourier_approx_svm.score''],
            Simple [''nystroem_approx_svm.score''],
            Simple [''nystroem_scores.append''],
            Simple [''fourier_scores.append'']]],
      execution_count = Some 3,
      outputs =
        [StreamOut ''stdout''
           [''Automatically created module for IPython interactive environment'']]\<rparr>"

definition kernel_accuracy_plot_cell :: cell where
  "kernel_accuracy_plot_cell =
     \<lparr>source =
        [Simple [''tools.make_subplots''],
         Simple [''dict'', ''go.Scatter''],
         Simple [''dict'', ''go.Scatter''],
         Simple [''dict'', ''go.Scatter''],
         Simple [''dict'', ''go.Scatter''],
         Simple [''dict'', ''go.Scatter''],
         Simple [''dict'', ''go.Scatter''],
         Simple [''dict'', ''go.Scatter''],
         Simple [''dict'', ''go.Scatter''],
         Simple [''dict'', ''go.Scatter''],
         For [] 5 [Simple [''fig.append_trace'']],
         For [] 4 [Simple [''fig.append_trace'']],
         Simple [''update''],
         Simple [''update''],
         Simple [''np.min'', ''update''],
         Simple [''update''],
         Simple [''update''],
         Simple [''py.iplot'']],
      execution_count = Some 4,
      outputs =
        [StreamOut ''stdout''
           [''This is the format of your plot grid:'', ''[ (1,1) x1,y1 ]'',
            ''[ (2,1) x2,y2 ]'', ''''],
         ExecuteResult ''<plotly.tools.PlotlyDisplay object>'']\<rparr>"

text \<open>
  The cell that plots the decision surfaces. \<open>matplotlib_to_plotly\<close> is defined in the
  cell; both of its calls pass 300 entries.
\<close>

definition kernel_surface_plot_cell :: cell where
  "kernel_surface_plot_cell =
     \<lparr>source =
        [Simple [''tools.make_subplots''],
         Simple [''PCA'', ''PCA.fit''],
         Simple [''pca.transform''],
         Simple [''np.arange''],
         Simple [],
         Simple [],
         Simple [],
         Simple [''grid.reshape''],
         Simple [],
         Def ''matplotlib_to_plotly''
           [Simple [],
            Simple [],
            For [''range''] 300
              [Simple [''cmap'', ''np.array'', ''map''],
               Simple [''str'', ''pl_colorscale.append'']],
            Simple []],
         Simple [],
         Simple [],
         For [''enumerate''] 3
           [Simple [''clf.predict''],
            Simple [''Z.reshape''],
            Simple [''dict'', ''dict'', ''matplotlib_to_plotly'', ''go.Contour''],
            Simple [''contour_list.append''],
            Simple [''matplotlib_to_plotly'', ''dict'', ''dict'', ''go.Scatter''],
            Simple [''scatter_list.append'']],
         For [''range''] 3
           [Simple [''fig1.append_trace''],
            Simple [''fig1.append_trace'']],
         For [''range''] 3
           [Simple [''str''],
            Simple [''str''],
            Simple [''update''],
            Simple [''update'']],
         Simple [''py.iplot'']],
      execution_count = Some 5,
      outputs =
        [StreamOut ''stdout''
           [''This is the format of your plot grid:'',
            ''[ (1,1) x1,y1 ]  [ (1,2) x2,y2 ]  [ (1,3) x3,y3 ]'', ''''],
         ExecuteResult ''<plotly.tools.PlotlyDisplay object>'']\<rparr>"

text \<open>
  The last cell with code. Of the text pip printed, the lines are given without their
  terminal control characters.
\<close>

definition publish_cell_source :: "stmt list" where
  "publish_cell_source =
     [Import ''IPython.display'',
      Simple [''HTML'', ''display''],
      Simple [''HTML'', ''display''],
      Shell ''pip install git+https://github.com/plotly/publisher.git --upgrade'',
      Import ''publisher'',
      Simple [''publisher.publish'']]"

definition kernel_publish_cell :: cell where
  "kernel_publish_cell =
     \<lparr>source = publish_cell_source,
      execution_count = Some 2,
      outputs =
        [DisplayData, DisplayData,
         StreamOut ''stdout''
           [''Collecting git+https://github.com/plotly/publisher.git'',
            ''  Cloning https://github.com/plotly/publisher.git to /tmp/pip-GBYkwW-build'',
            ''Installing collected packages: publisher'',
            ''  Found existing installation: publisher 0.10'',
            ''    Uninstalling publisher-0.10:'',
            ''      Successfully uninstalled publisher-0.10'',
            ''  Running setup.py install for publisher ... done'',
            ''Successfully installed publisher-0.10'']]\<rparr>"

definition empty_cell :: cell where
  "empty_cell = \<lparr>source = [], execution_count = None, outputs = []\<rparr>"

text \<open>The statements of the cells before the last cell with code.\<close>

definition kernel_work :: "stmt list" where
  "kernel_work = source kernel_version_cell @ source kernel_imports_cell @
     source kernel_calculations_cell @ source kernel_accuracy_plot_cell @
     source kernel_surface_plot_cell"

definition kernel_notebook :: "cell list" where
  "kernel_notebook =
     [kernel_version_cell, kernel_imports_cell, kernel_calculations_cell,
      kernel_accuracy_plot_cell, kernel_surface_plot_cell, kernel_publish_cell, empty_cell]"


section \<open>The covariance notebook, cell by cell\<close>

definition covariance_version_cell :: cell where
  "covariance_version_cell =
     \<lparr>source = [Import ''sklearn'', Simple []],
      execution_count = Some 1,
      outputs = [ExecuteResult ''0.18'']\<rparr>"

definition covariance_imports_cell :: cell where
  "covariance_imports_cell =
     \<lparr>source =
        [Import ''plotly.plotly'', Import ''plotly.graph_objs'', Simple [''print''],
         Import ''numpy'', Import ''matplotlib.pyplot'', Import ''matplotlib.font_manager'',
         Import ''sklearn.covariance''],
      execution_count = Some 1,
      outputs =
        [StreamOut ''stdout''
           [''Automatically created module for IPython interactive environment'']]\<rparr>"

text \<open>
  The Calculations cell: the outer loop runs once for each outlier level, the inner loop
  \<open>repeat\<close> times.
\<close>

definition covariance_calculations_cell :: cell where
  "covariance_calculations_cell =
     \<lparr>source =
        [Simple [], Simple [], Simple [],
         Simple [''np.linspace'', ''np.linspace'', ''np.concatenate''],
         Simple [''np.zeros''], Simple [''np.zeros''], Simple [''np.zeros''],
         Simple [''np.zeros''], Simple [''np.zeros''], Simple [''np.zeros''],
         For [''enumerate''] (length range_n_outliers)
           [For [''range''] repeat
              [Simple [''np.random.RandomState''],
               Simple [''rng.randn''],
               Simple [''rng.permutation''],
               Simple [''np.random.randint''],
               Simple [],
               Simple [''np.ones'', ''astype''],
               Simple [],
               Simple [''MinCovDet'', ''MinCovDet.fit''],
               Simple [''np.sum''],
               Simple [''np.eye'', ''mcd.error_norm''],
               Simple [''X.mean'', ''np.sum''],
               Simple [''EmpiricalCovariance'', ''EmpiricalCovariance.fit'', ''np.eye'',
                       ''error_norm''],
               Simple [],
               Simple [''pure_X.mean''],
               Simple [''EmpiricalCovariance'', ''EmpiricalCovariance.fit''],
               Simple [''np.sum''],
               Simple [''np.eye'', ''pure_emp_cov.error_norm'']]]],
      execution_count = Some 2,
      outputs =
        [StreamOut ''stderr''
           [''/home/diksha/anaconda2/lib/python2.7/site-packages/ipykernel/__main__.py:27: VisibleDeprecationWarning:'',
            '''',
            ''using a non-integer number instead of an integer will result in an error in the future'',
            '''',
            ''/home/diksha/anaconda2/lib/python2.7/site-packages/ipykernel/__main__.py:28: VisibleDeprecationWarning:'',
            '''',
            ''using a non-integer number instead of an integer will result in an error in the future'',
            '''']]\<rparr>"

definition covariance_location_figure_cell :: cell where
  "covariance_location_figure_cell =
     \<lparr>source =
        [Simple [''matplotlib.font_manager.FontProperties''],
         Simple [''err_loc_mcd.mean'', ''err_loc_mcd.std'', ''np.sqrt'', ''dict'', ''dict'',
                 ''go.Scatter''],
         Simple [''err_loc_emp_full.mean'', ''err_loc_emp_full.std'', ''np.sqrt'', ''dict'',
                 ''dict'', ''go.Scatter''],
         Simple [''err_loc_emp_pure.mean'', ''err_loc_emp_pure.std'', ''np.sqrt'', ''dict'',
                 ''dict'', ''go.Scatter''],
         Simple [''dict'', ''dict'', ''go.Layout''],
         Simple [''go.Figure'']],
      execution_count = Some 3,
      outputs = []\<rparr>"

definition covariance_location_plot_cell :: cell where
  "covariance_location_plot_cell =
     \<lparr>source = [Simple [''py.iplot'']],
      execution_count = Some 4,
      outputs = [ExecuteResult ''<plotly.tools.PlotlyDisplay object>'']\<rparr>"

definition covariance_covariance_figure_cell :: cell where
  "covariance_covariance_figure_cell =
     \<lparr>source =
        [Simple [],
         Simple [''err_cov_mcd.mean'', ''err_cov_mcd.std'', ''dict'', ''dict'', ''go.Scatter''],
         Simple [''err_cov_emp_full.mean'', ''err_cov_emp_full.std'', ''dict'', ''dict'',
                 ''go.Scatter''],
         Simple [''err_cov_emp_full.mean'', ''dict'', ''go.Scatter''],
         Simple [''err_cov_emp_pure.mean'', ''err_cov_emp_pure.std'', ''dict'', ''dict'',
                 ''go.Scatter''],
         Simple [''dict'', ''dict'', ''go.Layout''],
         Simple [''go.Figure'']],
      execution_count = Some 5,
      outputs = []\<rparr>"

definition covariance_covariance_plot_cell :: cell where
  "covariance_covariance_plot_cell =
     \<lparr>source = [Simple [''py.iplot'']],
      execution_count = Some 6,
      outputs = [ExecuteResult ''<plotly.tools.PlotlyDisplay object>'']\<rparr>"

text \<open>
  The last cell with code, and the transcript of its \<^verbatim>\<open>! pip install\<close>: one stream of
  standard output. The two lines that echo the setup command are left out, and so are the
  terminal control characters.
\<close>

definition covariance_publish_cell :: cell where
  "covariance_publish_cell =
     \<lparr>source = publish_cell_source,
      execution_count = Some 4,
      outputs =
        [DisplayData, DisplayData,
         StreamOut ''stdout''
           [''Collecting git+https://github.com/plotly/publisher.git'',
            ''  Cloning https://github.com/plotly/publisher.git to /tmp/pip-NCrI88-build'',
            ''Installing collected packages: publisher'',
            ''  Running setup.py install for publisher ... error'',
            ''    running install'',
            ''    running build'',
            ''    running build_py'',
            ''    creating build'',
            ''    creating build/lib.linux-x86_64-2.7'',
            ''    creating build/lib.linux-x86_64-2.7/publisher'',
            ''    copying publisher/publisher.py -> build/lib.linux-x86_64-2.7/publisher'',
            ''    copying publisher/__init__.py -> build/lib.linux-x86_64-2.7/publisher'',
            ''    running install_lib'',
            ''    creating /usr/local/lib/python2.7/dist-packages/publisher'',
            ''    error: could not create '/usr/local/lib/python2.7/dist-packages/publisher': Permission denied'',
            ''    '',
            ''    ----------------------------------------'',
            ''You are using pip version 8.1.2, however version 9.0.1 is available.'',
            ''You should consider upgrading via the 'pip install --upgrade pip' command.'']]\<rparr>"

text \<open>The statements of the cells before the last cell with code.\<close>

definition covariance_work :: "stmt list" where
  "covariance_work = source covariance_version_cell @ source covariance_imports_cell @
     source covariance_calculations_cell @ source covariance_location_figure_cell @
     source covariance_location_plot_cell @ source covariance_covariance_figure_cell @
     source covariance_covariance_plot_cell"

definition covariance_notebook :: "cell list" where
  "covariance_notebook =
     [covariance_version_cell, covariance_imports_cell, covariance_calculations_cell,
      covariance_location_figure_cell, covariance_location_plot_cell,
      covariance_covariance_figure_cell, covariance_covariance_plot_cell,
      covariance_publish_cell, empty_cell]"


section \<open>The R script\<close>

text \<open>
  The chart trace the script builds in \<^verbatim>\<open>data <- list(list(x = c(...), y = c(...),
  name = "Col2", type = "bar"))\<close>: the state codes and the populations, both as the
  strings the script gives.
\<close>

record chart_trace =
  trace_x :: "string list"
  trace_y :: "string list"
  trace_name :: string
  trace_type :: string

definition r_data :: "chart_trace list" where
  "r_data =
     [\<lparr>trace_x =
         [''AL'', ''AK'', ''AZ'', ''AR'', ''CA'', ''CO'', ''CT'', ''DE'', ''DC'', ''FL'',
          ''GE'', ''HA'', ''ID'', ''IL'', ''IN'', ''IO'', ''KS'', ''KY'', ''LA'', ''ME'',
          ''MD'', ''MA'', ''MI'', ''MN'', ''MS'', ''MO'', ''MT'', ''NE'', ''NE'', ''NH'',
          ''NJ'', ''NM'', ''NY'', ''NC'', ''ND'', ''OH'', ''OK'', ''OR'', ''PA'', ''RI'',
          ''SC'', ''SD'', ''TN'', ''TX'', ''UT'', ''VT'', ''VA'', ''WA'', ''WV'', ''WI'',
          ''WY''],
       trace_y =
         [''4833722'', ''735132'', ''6626624'', ''2959373'', ''38332521'', ''5268367'',
          ''3596080'', ''925749'', ''646449'', ''19552860'', ''9992167'', ''1404054'',
          ''1612136'', ''12882135'', ''6570902'', ''3090416'', ''2893957'', ''4395295'',
          ''4625470'', ''1328302'', ''5928814'', ''6692824'', ''9895622'', ''5420380'',
          ''2991207'', ''6044171'', ''1015165'', ''1868516'', ''2790136'', ''1323459'',
          ''8899339'', ''2085287'', ''19651127'', ''9848060'', ''723393'', ''11570808'',
          ''3850568'', ''3930065'', ''12773801'', ''1051511'', ''4774839'', ''844877'',
          ''6495978'', ''26448193'', ''2900872'', ''626630'', ''8260405'', ''6971406'',
          ''1854304'', ''5742713'', ''582658''],
       trace_name = ''Col2'',
       trace_type = ''bar''\<rparr>]"

text \<open>
  The tokens of a line inside an R argument list, as far as the script needs them:
  symbols, double-quoted string constants (a backslash escapes the next character) and
  single punctuation characters; blanks separate tokens.
\<close>

datatype r_token = Sym string | Str string | Punct char | Unterminated

datatype lex_mode = Top | InStr | InSym

definition is_sym_char :: "char \<Rightarrow> bool" where
  "is_sym_char c =
     (let n = (of_char c :: nat)
      in (97 \<le> n \<and> n \<le> 122) \<or> (65 \<le> n \<and> n \<le> 90) \<or> (48 \<le> n \<and> n \<le> 57) \<or>
         c = CHR ''.'' \<or> c = CHR ''_'')"

fun r_lex :: "lex_mode \<Rightarrow> string \<Rightarrow> string \<Rightarrow> r_token list" where
  "r_lex Top acc [] = []"
| "r_lex InSym acc [] = [Sym (rev acc)]"
| "r_lex InStr acc [] = [Unterminated]"
| "r_lex Top acc (c # cs) =
     (if c = CHR 0x22 then r_lex InStr [] cs
      else if is_sym_char c then r_lex InSym [c] cs
      else if c = CHR '' '' then r_lex Top [] cs
      else Punct c # r_lex Top [] cs)"
| "r_lex InStr acc (c # cs) =
     (if c = CHR 0x22 then Str (rev acc) # r_lex Top [] cs
      else if c = CHR 0x5C then
        (case cs of [] \<Rightarrow> [Unterminated] | d # ds \<Rightarrow> r_lex InStr (d # c # acc) ds)
      else r_lex InStr (c # acc) cs)"
| "r_lex InSym acc (c # cs) =
     (if is_sym_char c then r_lex InSym (c # acc) cs
      else if c = CHR 0x22 then Sym (rev acc) # r_lex InStr [] cs
      else if c = CHR '' '' then Sym (rev acc) # r_lex Top [] cs
      else Sym (rev acc) # Punct c # r_lex Top [] cs)"

text \<open>
  R has no juxtaposition: in an argument list, where no token is a keyword, two operands
  with no operator or comma between them are a syntax error.
\<close>

fun operand :: "r_token \<Rightarrow> bool" where
  "operand (Sym s) = True"
| "operand (Str s) = True"
| "operand t = False"

fun juxtaposed :: "r_token list \<Rightarrow> bool" where
  "juxtaposed (a # b # ts) = ((operand a \<and> operand b) \<or> juxtaposed (b # ts))"
| "juxtaposed ts = False"

text \<open>
  Line 138 of the script, inside \<^verbatim>\<open>layout <- list(...)\<close>; \<open>CHR 0x22\<close> is the double
  quote.
\<close>

definition line_138 :: string where
  "line_138 =
     ''    family = '' @ [CHR 0x22, CHR 0x22] @ ''Open sans'' @ [CHR 0x22] @
     '', verdana, arial, sans-serif'' @ [CHR 0x22] @ '', ''"

text \<open>
  The statement \<^verbatim>\<open>layout <- list(...)\<close> of lines 13 to 150. Were it read, it would call
  \<open>c\<close> and \<open>list\<close> for the nested axis, legend, margin and font settings.
\<close>

definition layout_assignment :: stmt where
  "layout_assignment =
     (if juxtaposed (r_lex Top [] line_138) then Unparsable
      else Simple [''c'', ''c'', ''list'', ''list'', ''list'',
                   ''c'', ''c'', ''list'', ''list'', ''list'',
                   ''list'', ''list'', ''list'', ''list'', ''list'', ''list''])"

text \<open>
  The script, statement by statement; R reads and evaluates the statements of a script
  one after the other. The last three are
  \<^verbatim>\<open>response <- p$plotly(data, kwargs=list(layout=layout, filename="2013-US-Population",
  fileopt="overwrite", auto_open="FALSE"))\<close>, \<^verbatim>\<open>url <- response$url\<close> and
  \<^verbatim>\<open>filename <- response$filename\<close>.
\<close>

definition r_script :: "stmt list" where
  "r_script =
     [Import ''plotly'',
      Simple [''plotly''],
      Simple [''c'', ''c'', ''list'', ''list''],
      layout_assignment,
      Simple [''list'', ''p$plotly''],
      Simple [],
      Simple []]"


section \<open>The train/test split\<close>

lemma length_centred_data: "length (centred_data lib digits) = length (data digits)"
  by (simp add: centred_data_def Let_def)

text \<open>
  C9. With n the number of samples, \<open>data_train\<close> is the first \<open>n div 2\<close> rows of the
  centred data and \<open>data_test\<close> the remaining rows, and likewise for the labels: the two
  parts put end to end are the whole data set, and every row index lies in exactly one part.
\<close>

theorem train_test_split_partitions:
  "length (centred_data lib digits) = length (data digits) \<and>
   data_train (train_test_split lib digits) =
     take (length (data digits) div 2) (centred_data lib digits) \<and>
   data_test (train_test_split lib digits) =
     drop (length (data digits) div 2) (centred_data lib digits) \<and>
   targets_train (train_test_split lib digits) =
     take (length (data digits) div 2) (target digits) \<and>
   targets_test (train_test_split lib digits) =
     drop (length (data digits) div 2) (target digits) \<and>
   data_train (train_test_split lib digits) @ data_test (train_test_split lib digits) =
     centred_data lib digits \<and>
   targets_train (train_test_split lib digits) @ targets_test (train_test_split lib digits) =
     target digits \<and>
   length (data_train (train_test_split lib digits)) = length (data digits) div 2 \<and>
   length (data_test (train_test_split lib digits)) =
     length (data digits) - length (data digits) div 2 \<and>
   (\<forall>i < length (data digits).
      (i < length (data digits) div 2 \<and>
       data_train (train_test_split lib digits) ! i = centred_data lib digits ! i) \<or>
      (length (data digits) div 2 \<le> i \<and>
       data_test (train_test_split lib digits) ! (i - length (data digits) div 2) =
         centred_data lib digits ! i))"
proof -
  let ?n = "length (data digits)"
  let ?X = "centred_data lib digits"
  have len: "length ?X = ?n" by (rule length_centred_data)
  have tr: "data_train (train_test_split lib digits) = take (?n div 2) ?X"
    and te: "data_test (train_test_split lib digits) = drop (?n div 2) ?X"
    and ttr: "targets_train (train_test_split lib digits) = take (?n div 2) (target digits)"
    and tte: "targets_test (train_test_split lib digits) = drop (?n div 2) (target digits)"
    by (simp_all add: train_test_split_def Let_def)
  have idx: "(i < ?n div 2 \<and> take (?n div 2) ?X ! i = ?X ! i) \<or>
             (?n div 2 \<le> i \<and> drop (?n div 2) ?X ! (i - ?n div 2) = ?X ! i)"
    if "i < ?n" for i
  proof (cases "i < ?n div 2")
    case True
    then show ?thesis by simp
  next
    case False
    then have "?n div 2 + (i - ?n div 2) = i" by simp
    moreover have "?n div 2 \<le> length ?X" by (simp add: len)
    ultimately have "drop (?n div 2) ?X ! (i - ?n div 2) = ?X ! i"
      by (metis nth_drop)
    with False show ?thesis by simp
  qed
  show ?thesis
    unfolding tr te ttr tte using len idx by simp
qed

theorem train_test_split_partitions_witness:
  "centred_data example_lib example_digits = [- 2, - 1, 0, 1, 2] \<and>
   data_train (train_test_split example_lib example_digits) = [- 2, - 1] \<and>
   data_test (train_test_split example_lib example_digits) = [0, 1, 2] \<and>
   targets_train (train_test_split example_lib example_digits) = [0, 1] \<and>
   targets_test (train_test_split example_lib example_digits) = [2, 3, 4]"
  using train_test_split_partitions [of example_lib example_digits]
  by (simp add: centred_data_def example_lib_def example_digits_def Let_def)


section \<open>The parameter sweep\<close>

lemma sample_sizes_eq: "sample_sizes = [30, 60, 90, 120, 150, 180, 210, 240, 270]"
  by (simp add: sample_sizes_def arange_def upt_rec)

lemma fit_timed_params:
  "fit_timed lib p sp w = Inr (p', t, w') \<Longrightarrow> feature_map p' = feature_map p \<and> svm p' = svm p"
  by (auto simp: fit_timed_def pipeline_fit_def Let_def split: sum.splits prod.splits)

lemma body_Inr:
  assumes "body lib sp D s = Inr s'"
  shows "\<exists>ny' t_ny w1 fo' t_fo w2 sc_fo sc_ny.
    fit_timed lib (set_params_n_components D (nystroem_approx_svm s)) sp (env s) = Inr (ny', t_ny, w1) \<and>
    fit_timed lib (set_params_n_components D (fourier_approx_svm s)) sp w1 = Inr (fo', t_fo, w2) \<and>
    pipeline_score lib fo' (data_test sp) (targets_test sp) = Inr sc_fo \<and>
    pipeline_score lib ny' (data_test sp) (targets_test sp) = Inr sc_ny \<and>
    s' = s\<lparr>fourier_approx_svm := fo', nystroem_approx_svm := ny',
           nystroem_times := nystroem_times s @ [t_ny],
           fourier_times := fourier_times s @ [t_fo],
           nystroem_scores := nystroem_scores s @ [sc_ny],
           fourier_scores := fourier_scores s @ [sc_fo],
           env := w2\<rparr>"
  using assms by (auto simp: body_def Let_def split: sum.splits prod.splits)

lemma sweep_append:
  "sweep lib sp (Ds @ Es) s =
     (case sweep lib sp Ds s of Inl e \<Rightarrow> Inl e | Inr s1 \<Rightarrow> sweep lib sp Es s1)"
  by (induction Ds arbitrary: s) (auto split: sum.splits)

lemma sweep_grows:
  "sweep lib sp Ds s = Inr sf \<Longrightarrow>
   \<exists>a b c d. length a = length Ds \<and> length b = length Ds \<and> length c = length Ds \<and> length d = length Ds \<and>
     fourier_scores sf = fourier_scores s @ a \<and> nystroem_scores sf = nystroem_scores s @ b \<and>
     fourier_times sf = fourier_times s @ c \<and> nystroem_times sf = nystroem_times s @ d"
proof (induction Ds arbitrary: s)
  case Nil
  then show ?case by simp
next
  case (Cons D Ds)
  from Cons.prems obtain s1 where b: "body lib sp D s = Inr s1" and r: "sweep lib sp Ds s1 = Inr sf"
    by (auto split: sum.splits)
  from body_Inr [OF b] obtain x1 x2 x3 x4 where
    g: "fourier_scores s1 = fourier_scores s @ [x1]" "nystroem_scores s1 = nystroem_scores s @ [x2]"
       "fourier_times s1 = fourier_times s @ [x3]" "nystroem_times s1 = nystroem_times s @ [x4]"
    by auto
  from Cons.IH [OF r] obtain a b c d where
    h: "length a = length Ds" "length b = length Ds" "length c = length Ds" "length d = length Ds"
       "fourier_scores sf = fourier_scores s1 @ a" "nystroem_scores sf = nystroem_scores s1 @ b"
       "fourier_times sf = fourier_times s1 @ c" "nystroem_times sf = nystroem_times s1 @ d"
    by blast
  show ?case
    apply (rule exI [of _ "x1 # a"], rule exI [of _ "x2 # b"], rule exI [of _ "x3 # c"], rule exI [of _ "x4 # d"])
    using g h by simp
qed

lemma sweep_nth:
  assumes run: "sweep lib sp Ds s0 = Inr sf" and i: "i < length Ds"
  shows "\<exists>s s'. sweep lib sp (take i Ds) s0 = Inr s \<and> body lib sp (Ds ! i) s = Inr s' \<and>
           fourier_scores sf ! (length (fourier_scores s0) + i) = last (fourier_scores s') \<and>
           nystroem_scores sf ! (length (nystroem_scores s0) + i) = last (nystroem_scores s') \<and>
           fourier_times sf ! (length (fourier_times s0) + i) = last (fourier_times s') \<and>
           nystroem_times sf ! (length (nystroem_times s0) + i) = last (nystroem_times s')"
proof -
  have Ds: "Ds = take i Ds @ (Ds ! i # drop (Suc i) Ds)"
    using i by (simp add: Cons_nth_drop_Suc)
  from run have "sweep lib sp (take i Ds @ (Ds ! i # drop (Suc i) Ds)) s0 = Inr sf"
    using Ds by simp
  then obtain s s' where
    p: "sweep lib sp (take i Ds) s0 = Inr s" and b: "body lib sp (Ds ! i) s = Inr s'"
    and r: "sweep lib sp (drop (Suc i) Ds) s' = Inr sf"
    by (auto simp: sweep_append split: sum.splits)
  from sweep_grows [OF p] i obtain a b c d where
    1: "length a = i" "length b = i" "length c = i" "length d = i"
       "fourier_scores s = fourier_scores s0 @ a" "nystroem_scores s = nystroem_scores s0 @ b"
       "fourier_times s = fourier_times s0 @ c" "nystroem_times s = nystroem_times s0 @ d"
    by auto
  from body_Inr [OF b] obtain x1 x2 x3 x4 where
    2: "fourier_scores s' = fourier_scores s @ [x1]" "nystroem_scores s' = nystroem_scores s @ [x2]"
       "fourier_times s' = fourier_times s @ [x3]" "nystroem_times s' = nystroem_times s @ [x4]"
    by auto
  from sweep_grows [OF r] obtain a' b' c' d' where
    3: "fourier_scores sf = fourier_scores s' @ a'" "nystroem_scores sf = nystroem_scores s' @ b'"
       "fourier_times sf = fourier_times s' @ c'" "nystroem_times sf = nystroem_times s' @ d'"
    by blast
  have "fourier_scores sf ! (length (fourier_scores s0) + i) = last (fourier_scores s')"
    using 1 2 3 by (simp add: nth_append)
  moreover have "nystroem_scores sf ! (length (nystroem_scores s0) + i) = last (nystroem_scores s')"
    using 1 2 3 by (simp add: nth_append)
  moreover have "fourier_times sf ! (length (fourier_times s0) + i) = last (fourier_times s')"
    using 1 2 3 by (simp add: nth_append)
  moreover have "nystroem_times sf ! (length (nystroem_times s0) + i) = last (nystroem_times s')"
    using 1 2 3 by (simp add: nth_append)
  ultimately show ?thesis using p b by blast
qed

lemma baseline_lists:
  "baseline lib sp w = Inr s0 \<Longrightarrow>
   fourier_scores s0 = [] \<and> nystroem_scores s0 = [] \<and> fourier_times s0 = [] \<and> nystroem_times s0 = [] \<and>
   fourier_approx_svm s0 = \<lparr>feature_map = feature_map_fourier, svm = LinearSVC, fitted = None\<rparr> \<and>
   nystroem_approx_svm s0 = \<lparr>feature_map = feature_map_nystroem, svm = LinearSVC, fitted = None\<rparr>"
  by (auto simp: baseline_def split: sum.splits prod.splits)

text \<open>When no library call raises, the cell runs to its end.\<close>

lemma estimator_fit_completes:
  assumes "\<And>p g A y. \<exists>sv g'. svm_fit lib p g A y = (Inr sv, g')"
  shows "\<exists>sv w'. estimator_fit lib p A y w = Inr (sv, w')"
proof -
  from assms obtain sv g' where "svm_fit lib p (np_random w) A y = (Inr sv, g')" by blast
  then show ?thesis by (simp add: estimator_fit_def)
qed

lemma fit_feature_map_completes:
  assumes "\<And>p g A. \<exists>fm g'. fm_fit lib p g A = (Inr fm, g')"
  shows "\<exists>fm w'. fit_feature_map lib p A w = (Inr fm, w')"
proof (cases "random_state p")
  case None
  from assms obtain fm g' where "fm_fit lib p (np_random w) A = (Inr fm, g')" by blast
  with None show ?thesis by (simp add: fit_feature_map_def)
next
  case (Some seed)
  from assms obtain fm g' where "fm_fit lib p (RandomState lib seed) A = (Inr fm, g')" by blast
  with Some show ?thesis by (simp add: fit_feature_map_def)
qed

lemma pipeline_fit_completes:
  assumes ff: "\<And>p g A. \<exists>fm g'. fm_fit lib p g A = (Inr fm, g')"
    and ft: "\<And>fm A. \<exists>Xt. fm_transform lib fm A = Inr Xt"
    and sf: "\<And>p g A y. \<exists>sv g'. svm_fit lib p g A y = (Inr sv, g')"
  shows "\<exists>p' w'. pipeline_fit lib p A y w = Inr (p', w') \<and> fitted p' \<noteq> None"
proof -
  from fit_feature_map_completes [OF ff] obtain fm w1 where
    1: "fit_feature_map lib (feature_map p) A w = (Inr fm, w1)" by blast
  from ft obtain Xt where 2: "fm_transform lib fm A = Inr Xt" by blast
  from estimator_fit_completes [OF sf] obtain sv w2 where
    3: "estimator_fit lib (svm p) Xt y w1 = Inr (sv, w2)" by blast
  show ?thesis by (simp add: pipeline_fit_def 1 2 3)
qed

lemma fit_timed_completes:
  assumes ff: "\<And>p g A. \<exists>fm g'. fm_fit lib p g A = (Inr fm, g')"
    and ft: "\<And>fm A. \<exists>Xt. fm_transform lib fm A = Inr Xt"
    and sf: "\<And>p g A y. \<exists>sv g'. svm_fit lib p g A y = (Inr sv, g')"
  shows "\<exists>p' t w'. fit_timed lib p sp w = Inr (p', t, w') \<and> fitted p' \<noteq> None"
proof -
  obtain start w1 where t: "time w = (start, w1)" by (cases "time w")
  from pipeline_fit_completes [OF ff ft sf] obtain p' w2 where
    f: "pipeline_fit lib p (data_train sp) (targets_train sp) w1 = Inr (p', w2)"
    and n: "fitted p' \<noteq> None" by blast
  obtain stop w3 where t2: "time w2 = (stop, w3)" by (cases "time w2")
  show ?thesis using n by (simp add: fit_timed_def t f t2)
qed

lemma pipeline_score_completes:
  assumes ft: "\<And>fm A. \<exists>Xt. fm_transform lib fm A = Inr Xt"
    and ss: "\<And>sv A y. \<exists>sc. svm_score lib sv A y = Inr sc"
    and n: "fitted p \<noteq> None"
  shows "\<exists>sc. pipeline_score lib p A y = Inr sc"
proof -
  from n obtain fm sv where f: "fitted p = Some (fm, sv)" by auto
  from ft obtain Xt where t: "fm_transform lib fm A = Inr Xt" by blast
  from ss obtain sc where "svm_score lib sv Xt y = Inr sc" by blast
  then show ?thesis by (simp add: pipeline_score_def f t)
qed

lemma body_completes:
  assumes ff: "\<And>p g A. \<exists>fm g'. fm_fit lib p g A = (Inr fm, g')"
    and ft: "\<And>fm A. \<exists>Xt. fm_transform lib fm A = Inr Xt"
    and sf: "\<And>p g A y. \<exists>sv g'. svm_fit lib p g A y = (Inr sv, g')"
    and ss: "\<And>sv A y. \<exists>sc. svm_score lib sv A y = Inr sc"
  shows "\<exists>s'. body lib sp D s = Inr s'"
proof -
  from fit_timed_completes [OF ff ft sf] obtain ny' t_ny w1 where
    1: "fit_timed lib (set_params_n_components D (nystroem_approx_svm s)) sp (env s) =
          Inr (ny', t_ny, w1)" and n1: "fitted ny' \<noteq> None" by blast
  from fit_timed_completes [OF ff ft sf] obtain fo' t_fo w2 where
    2: "fit_timed lib (set_params_n_components D (fourier_approx_svm s)) sp w1 =
          Inr (fo', t_fo, w2)" and n2: "fitted fo' \<noteq> None" by blast
  from pipeline_score_completes [OF ft ss n2] obtain sc_fo where
    3: "pipeline_score lib fo' (data_test sp) (targets_test sp) = Inr sc_fo" by blast
  from pipeline_score_completes [OF ft ss n1] obtain sc_ny where
    4: "pipeline_score lib ny' (data_test sp) (targets_test sp) = Inr sc_ny" by blast
  show ?thesis by (simp add: body_def 1 2 3 4)
qed

lemma sweep_completes:
  assumes ff: "\<And>p g A. \<exists>fm g'. fm_fit lib p g A = (Inr fm, g')"
    and ft: "\<And>fm A. \<exists>Xt. fm_transform lib fm A = Inr Xt"
    and sf: "\<And>p g A y. \<exists>sv g'. svm_fit lib p g A y = (Inr sv, g')"
    and ss: "\<And>sv A y. \<exists>sc. svm_score lib sv A y = Inr sc"
  shows "\<exists>s'. sweep lib sp Ds s = Inr s'"
proof (induction Ds arbitrary: s)
  case Nil
  show ?case by simp
next
  case (Cons D Ds)
  from body_completes [OF ff ft sf ss] obtain s1 where "body lib sp D s = Inr s1" by blast
  with Cons.IH [of s1] show ?case by simp
qed

lemma fit_score_timed_completes:
  assumes sf: "\<And>p g A y. \<exists>sv g'. svm_fit lib p g A y = (Inr sv, g')"
    and ss: "\<And>sv A y. \<exists>sc. svm_score lib sv A y = Inr sc"
  shows "\<exists>sc t w'. fit_score_timed lib p sp w = Inr (sc, t, w')"
proof -
  obtain start w1 where t: "time w = (start, w1)" by (cases "time w")
  from estimator_fit_completes [OF sf] obtain sv w2 where
    f: "estimator_fit lib p (data_train sp) (targets_train sp) w1 = Inr (sv, w2)" by blast
  from ss obtain sc where s: "svm_score lib sv (data_test sp) (targets_test sp) = Inr sc" by blast
  obtain stop w3 where t2: "time w2 = (stop, w3)" by (cases "time w2")
  show ?thesis by (simp add: fit_score_timed_def t f s t2)
qed

lemma calculations_completes:
  assumes ld: "\<exists>digits. load_digits lib 9 = Inr digits"
    and ff: "\<And>p g A. \<exists>fm g'. fm_fit lib p g A = (Inr fm, g')"
    and ft: "\<And>fm A. \<exists>Xt. fm_transform lib fm A = Inr Xt"
    and sf: "\<And>p g A y. \<exists>sv g'. svm_fit lib p g A y = (Inr sv, g')"
    and ss: "\<And>sv A y. \<exists>sc. svm_score lib sv A y = Inr sc"
  shows "\<exists>sf. calculations lib w = Inr sf"
proof -
  from ld obtain digits where d: "load_digits lib 9 = Inr digits" by blast
  let ?sp = "train_test_split lib digits"
  from fit_score_timed_completes [OF sf ss] obtain k_score k_time w1 where
    1: "fit_score_timed lib (SVC (2 / 10)) ?sp w = Inr (k_score, k_time, w1)" by blast
  from fit_score_timed_completes [OF sf ss] obtain l_score l_time w2 where
    2: "fit_score_timed lib LinearSVC ?sp w1 = Inr (l_score, l_time, w2)" by blast
  have "\<exists>s0. baseline lib ?sp w = Inr s0" unfolding baseline_def 1 by (simp add: 2)
  then obtain s0 where b: "baseline lib ?sp w = Inr s0" by blast
  from sweep_completes [OF ff ft sf ss] obtain sf' where
    "sweep lib ?sp sample_sizes s0 = Inr sf'" by blast
  then show ?thesis by (simp add: calculations_def d b)
qed

lemma example_run:
  "\<exists>sf. calculations example_lib (example_world 0) = Inr sf \<and>
     fourier_scores sf = [63, 125, 187, 249, 311, 373, 435, 497, 559] \<and>
     nystroem_scores sf = [62, 124, 186, 248, 310, 372, 434, 496, 558] \<and>
     fourier_times sf = [13, 21, 29, 37, 45, 53, 61, 69, 77] \<and>
     nystroem_times sf = [9, 17, 25, 33, 41, 49, 57, 65, 73]"
  by (simp add: calculations_def example_lib_def example_world_def example_digits_def
      train_test_split_def centred_data_def baseline_def fit_score_timed_def estimator_fit_def
      time_def sample_sizes_eq body_def fit_timed_def pipeline_fit_def pipeline_score_def
      fit_feature_map_def set_params_n_components_def feature_map_fourier_def
      feature_map_nystroem_def Let_def)

text \<open>
  C2. The sweep runs over the nine values 30, 60, ..., 270 in this order. When the cell
  completes, each of the four result lists holds nine entries, and for every position i
  the entries come from the i-th pass: both pipelines are fitted with \<open>n_components\<close>
  set to the i-th sample size, the two time entries are the durations measured around
  these two fits, and the two score entries are the scores of the two pipelines so fitted.
\<close>

theorem sweep_fills_result_lists:
  assumes run: "calculations lib w = Inr sf"
  shows "sample_sizes = [30, 60, 90, 120, 150, 180, 210, 240, 270] \<and>
    length (fourier_scores sf) = 9 \<and> length (nystroem_scores sf) = 9 \<and>
    length (fourier_times sf) = 9 \<and> length (nystroem_times sf) = 9 \<and>
    (\<exists>digits s0.
       load_digits lib 9 = Inr digits \<and>
       baseline lib (train_test_split lib digits) w = Inr s0 \<and>
       (\<forall>i < 9. \<exists>s ny' t_ny w1 fo' t_fo w2 sc_fo sc_ny.
          sweep lib (train_test_split lib digits) (take i sample_sizes) s0 = Inr s \<and>
          fit_timed lib (set_params_n_components (sample_sizes ! i) (nystroem_approx_svm s))
            (train_test_split lib digits) (env s) = Inr (ny', t_ny, w1) \<and>
          fit_timed lib (set_params_n_components (sample_sizes ! i) (fourier_approx_svm s))
            (train_test_split lib digits) w1 = Inr (fo', t_fo, w2) \<and>
          n_components (feature_map ny') = sample_sizes ! i \<and>
          n_components (feature_map fo') = sample_sizes ! i \<and>
          pipeline_score lib fo' (data_test (train_test_split lib digits))
            (targets_test (train_test_split lib digits)) = Inr sc_fo \<and>
          pipeline_score lib ny' (data_test (train_test_split lib digits))
            (targets_test (train_test_split lib digits)) = Inr sc_ny \<and>
          nystroem_times sf ! i = t_ny \<and> fourier_times sf ! i = t_fo \<and>
          nystroem_scores sf ! i = sc_ny \<and> fourier_scores sf ! i = sc_fo))"
proof -
  from run obtain digits s0 where
    ld: "load_digits lib 9 = Inr digits" and
    bl: "baseline lib (train_test_split lib digits) w = Inr s0" and
    sw: "sweep lib (train_test_split lib digits) sample_sizes s0 = Inr sf"
    by (auto simp: calculations_def split: sum.splits)
  let ?sp = "train_test_split lib digits"
  have len: "length sample_sizes = 9" by (simp add: sample_sizes_eq)
  from baseline_lists [OF bl] have empty:
    "fourier_scores s0 = []" "nystroem_scores s0 = []" "fourier_times s0 = []" "nystroem_times s0 = []"
    by simp_all
  from sweep_grows [OF sw] have lens:
    "length (fourier_scores sf) = 9" "length (nystroem_scores sf) = 9"
    "length (fourier_times sf) = 9" "length (nystroem_times sf) = 9"
    using empty len by auto
  have each: "\<exists>s ny' t_ny w1 fo' t_fo w2 sc_fo sc_ny.
          sweep lib ?sp (take i sample_sizes) s0 = Inr s \<and>
          fit_timed lib (set_params_n_components (sample_sizes ! i) (nystroem_approx_svm s))
            ?sp (env s) = Inr (ny', t_ny, w1) \<and>
          fit_timed lib (set_params_n_components (sample_sizes ! i) (fourier_approx_svm s))
            ?sp w1 = Inr (fo', t_fo, w2) \<and>
          n_components (feature_map ny') = sample_sizes ! i \<and>
          n_components (feature_map fo') = sample_sizes ! i \<and>
          pipeline_score lib fo' (data_test ?sp) (targets_test ?sp) = Inr sc_fo \<and>
          pipeline_score lib ny' (data_test ?sp) (targets_test ?sp) = Inr sc_ny \<and>
          nystroem_times sf ! i = t_ny \<and> fourier_times sf ! i = t_fo \<and>
          nystroem_scores sf ! i = sc_ny \<and> fourier_scores sf ! i = sc_fo"
    if i: "i < 9" for i
  proof -
    from i len have "i < length sample_sizes" by simp
    from sweep_nth [OF sw this] obtain s s' where
      p: "sweep lib ?sp (take i sample_sizes) s0 = Inr s" and
      b: "body lib ?sp (sample_sizes ! i) s = Inr s'" and
      e: "fourier_scores sf ! i = last (fourier_scores s')"
         "nystroem_scores sf ! i = last (nystroem_scores s')"
         "fourier_times sf ! i = last (fourier_times s')"
         "nystroem_times sf ! i = last (nystroem_times s')"
      using empty by auto
    from body_Inr [OF b] obtain ny' t_ny w1 fo' t_fo w2 sc_fo sc_ny where
      f1: "fit_timed lib (set_params_n_components (sample_sizes ! i) (nystroem_approx_svm s))
             ?sp (env s) = Inr (ny', t_ny, w1)" and
      f2: "fit_timed lib (set_params_n_components (sample_sizes ! i) (fourier_approx_svm s))
             ?sp w1 = Inr (fo', t_fo, w2)" and
      s1: "pipeline_score lib fo' (data_test ?sp) (targets_test ?sp) = Inr sc_fo" and
      s2: "pipeline_score lib ny' (data_test ?sp) (targets_test ?sp) = Inr sc_ny" and
      s': "s' = s\<lparr>fourier_approx_svm := fo', nystroem_approx_svm := ny',
           nystroem_times := nystroem_times s @ [t_ny],
           fourier_times := fourier_times s @ [t_fo],
           nystroem_scores := nystroem_scores s @ [sc_ny],
           fourier_scores := fourier_scores s @ [sc_fo],
           env := w2\<rparr>"
      by blast
    have n1: "n_components (feature_map ny') = sample_sizes ! i"
      using fit_timed_params [OF f1] by (simp add: set_params_n_components_def)
    have n2: "n_components (feature_map fo') = sample_sizes ! i"
      using fit_timed_params [OF f2] by (simp add: set_params_n_components_def)
    have l: "nystroem_times sf ! i = t_ny" "fourier_times sf ! i = t_fo"
      "nystroem_scores sf ! i = sc_ny" "fourier_scores sf ! i = sc_fo"
      using e by (simp_all add: s')
    show ?thesis using p f1 f2 n1 n2 s1 s2 l by blast
  qed
  show ?thesis
    using sample_sizes_eq lens ld bl each by blast
qed

theorem sweep_fills_result_lists_witness:
  "\<exists>sf. calculations example_lib (example_world 0) = Inr sf \<and>
     length (fourier_scores sf) = 9 \<and> length (nystroem_scores sf) = 9 \<and>
     length (fourier_times sf) = 9 \<and> length (nystroem_times sf) = 9 \<and>
     fourier_scores sf = [63, 125, 187, 249, 311, 373, 435, 497, 559] \<and>
     nystroem_times sf = [9, 17, 25, 33, 41, 49, 57, 65, 73]"
proof -
  from example_run obtain sf where
    c: "calculations example_lib (example_world 0) = Inr sf" and
    l: "fourier_scores sf = [63, 125, 187, 249, 311, 373, 435, 497, 559]"
       "nystroem_times sf = [9, 17, 25, 33, 41, 49, 57, 65, 73]"
    by blast
  from sweep_fills_result_lists [OF c] have
    "length (fourier_scores sf) = 9 \<and> length (nystroem_scores sf) = 9 \<and>
     length (fourier_times sf) = 9 \<and> length (nystroem_times sf) = 9"
    by blast
  with c l show ?thesis by blast
qed


section \<open>The seeded feature maps\<close>

lemma fit_timed_seeded:
  assumes "random_state (feature_map p) = Some seed"
    and "fit_timed lib p sp w = Inr (p', t, w')"
  shows "\<exists>fm sv Xt.
    fst (fm_fit lib (feature_map p) (RandomState lib seed) (data_train sp)) = Inr fm \<and>
    fm_transform lib fm (data_train sp) = Inr Xt \<and>
    fitted p' = Some (fm, sv) \<and> feature_map p' = feature_map p"
  using assms
  by (auto simp: fit_timed_def pipeline_fit_def fit_feature_map_def Let_def time_def
      split: sum.splits prod.splits)

lemma body_feature_maps:
  assumes b: "body lib sp D s = Inr s'"
    and fo: "feature_map (fourier_approx_svm s) = feature_map_fourier\<lparr>n_components := n\<rparr>"
    and ny: "feature_map (nystroem_approx_svm s) = feature_map_nystroem\<lparr>n_components := m\<rparr>"
  shows "feature_map (fourier_approx_svm s') = feature_map_fourier\<lparr>n_components := D\<rparr> \<and>
    feature_map (nystroem_approx_svm s') = feature_map_nystroem\<lparr>n_components := D\<rparr> \<and>
    (\<exists>fm_f Xt_f sv_f fm_n Xt_n sv_n.
       fst (fm_fit lib (feature_map_fourier\<lparr>n_components := D\<rparr>) (RandomState lib 1)
              (data_train sp)) = Inr fm_f \<and>
       fm_transform lib fm_f (data_train sp) = Inr Xt_f \<and>
       fitted (fourier_approx_svm s') = Some (fm_f, sv_f) \<and>
       fst (fm_fit lib (feature_map_nystroem\<lparr>n_components := D\<rparr>) (RandomState lib 1)
              (data_train sp)) = Inr fm_n \<and>
       fm_transform lib fm_n (data_train sp) = Inr Xt_n \<and>
       fitted (nystroem_approx_svm s') = Some (fm_n, sv_n))"
proof -
  from body_Inr [OF b] obtain ny' t_ny w1 fo' t_fo w2 sc_fo sc_ny where
    f1: "fit_timed lib (set_params_n_components D (nystroem_approx_svm s)) sp (env s) = Inr (ny', t_ny, w1)" and
    f2: "fit_timed lib (set_params_n_components D (fourier_approx_svm s)) sp w1 = Inr (fo', t_fo, w2)" and
    s': "s' = s\<lparr>fourier_approx_svm := fo', nystroem_approx_svm := ny',
           nystroem_times := nystroem_times s @ [t_ny],
           fourier_times := fourier_times s @ [t_fo],
           nystroem_scores := nystroem_scores s @ [sc_ny],
           fourier_scores := fourier_scores s @ [sc_fo],
           env := w2\<rparr>"
    by blast
  have pf: "feature_map (set_params_n_components D (fourier_approx_svm s)) =
      feature_map_fourier\<lparr>n_components := D\<rparr>"
    by (simp add: set_params_n_components_def fo)
  have pn: "feature_map (set_params_n_components D (nystroem_approx_svm s)) =
      feature_map_nystroem\<lparr>n_components := D\<rparr>"
    by (simp add: set_params_n_components_def ny)
  have rf: "random_state (feature_map (set_params_n_components D (fourier_approx_svm s))) = Some 1"
    by (simp add: pf feature_map_fourier_def)
  have rn: "random_state (feature_map (set_params_n_components D (nystroem_approx_svm s))) = Some 1"
    by (simp add: pn feature_map_nystroem_def)
  from fit_timed_seeded [OF rf f2] fit_timed_seeded [OF rn f1]
  show ?thesis unfolding pf pn by (auto simp: s')
qed

lemma sweep_feature_maps:
  assumes "sweep lib sp Ds s = Inr s'"
    and "\<exists>n. feature_map (fourier_approx_svm s) = feature_map_fourier\<lparr>n_components := n\<rparr>"
    and "\<exists>m. feature_map (nystroem_approx_svm s) = feature_map_nystroem\<lparr>n_components := m\<rparr>"
  shows "(\<exists>n. feature_map (fourier_approx_svm s') = feature_map_fourier\<lparr>n_components := n\<rparr>) \<and>
    (\<exists>m. feature_map (nystroem_approx_svm s') = feature_map_nystroem\<lparr>n_components := m\<rparr>)"
  using assms
proof (induction Ds arbitrary: s)
  case Nil
  then show ?case by simp
next
  case (Cons D Ds)
  from Cons.prems(1) obtain s1 where b: "body lib sp D s = Inr s1" and r: "sweep lib sp Ds s1 = Inr s'"
    by (auto split: sum.splits)
  from Cons.prems(2,3) obtain n m where
    "feature_map (fourier_approx_svm s) = feature_map_fourier\<lparr>n_components := n\<rparr>"
    "feature_map (nystroem_approx_svm s) = feature_map_nystroem\<lparr>n_components := m\<rparr>"
    by blast
  from body_feature_maps [OF b this] have
    "\<exists>n. feature_map (fourier_approx_svm s1) = feature_map_fourier\<lparr>n_components := n\<rparr>"
    "\<exists>m. feature_map (nystroem_approx_svm s1) = feature_map_nystroem\<lparr>n_components := m\<rparr>"
    by blast+
  from Cons.IH [OF r this] show ?case .
qed

lemma sweep_last_feature_maps:
  assumes bl: "baseline lib sp w = Inr s0"
    and i: "i < length Ds"
    and run: "sweep lib sp (take (Suc i) Ds) s0 = Inr s'"
  shows "\<exists>fm_f Xt_f sv_f fm_n Xt_n sv_n.
       fst (fm_fit lib (feature_map_fourier\<lparr>n_components := Ds ! i\<rparr>) (RandomState lib 1)
              (data_train sp)) = Inr fm_f \<and>
       fm_transform lib fm_f (data_train sp) = Inr Xt_f \<and>
       fitted (fourier_approx_svm s') = Some (fm_f, sv_f) \<and>
       fst (fm_fit lib (feature_map_nystroem\<lparr>n_components := Ds ! i\<rparr>) (RandomState lib 1)
              (data_train sp)) = Inr fm_n \<and>
       fm_transform lib fm_n (data_train sp) = Inr Xt_n \<and>
       fitted (nystroem_approx_svm s') = Some (fm_n, sv_n)"
proof -
  have t: "take (Suc i) Ds = take i Ds @ [Ds ! i]"
    using i by (simp add: take_Suc_conv_app_nth)
  from run obtain s where p: "sweep lib sp (take i Ds) s0 = Inr s"
    and b: "body lib sp (Ds ! i) s = Inr s'"
    unfolding t by (auto simp: sweep_append split: sum.splits)
  from baseline_lists [OF bl] have
    "\<exists>n. feature_map (fourier_approx_svm s0) = feature_map_fourier\<lparr>n_components := n\<rparr>"
    "\<exists>m. feature_map (nystroem_approx_svm s0) = feature_map_nystroem\<lparr>n_components := m\<rparr>"
    by (auto simp: feature_map_fourier_def feature_map_nystroem_def)
  from sweep_feature_maps [OF p this] obtain n m where
    "feature_map (fourier_approx_svm s) = feature_map_fourier\<lparr>n_components := n\<rparr>"
    "feature_map (nystroem_approx_svm s) = feature_map_nystroem\<lparr>n_components := m\<rparr>"
    by blast
  from body_feature_maps [OF b this] show ?thesis by blast
qed

lemma example_prefix_runs:
  "\<exists>a0 b0 a b.
     baseline example_lib (train_test_split example_lib example_digits) (example_world 0) = Inr a0 \<and>
     baseline example_lib (train_test_split example_lib example_digits) (example_world 5) = Inr b0 \<and>
     sweep example_lib (train_test_split example_lib example_digits) (take (Suc 2) sample_sizes) a0
       = Inr a \<and>
     sweep example_lib (train_test_split example_lib example_digits) (take (Suc 2) sample_sizes) b0
       = Inr b \<and>
     np_random (env a) = 8 \<and> np_random (env b) = 13"
  by (simp add: example_lib_def example_world_def example_digits_def
      train_test_split_def centred_data_def baseline_def fit_score_timed_def estimator_fit_def
      time_def sample_sizes_eq body_def fit_timed_def pipeline_fit_def pipeline_score_def
      fit_feature_map_def set_params_n_components_def feature_map_fourier_def
      feature_map_nystroem_def Let_def)

text \<open>
  C8. Both feature maps are built with \<open>random_state=1\<close>, and the sweep changes nothing
  but \<open>n_components\<close>. Take two executions on the same data that differ in the outside
  world (the state of \<open>np.random\<close>, the clock). After the pass for the i-th sample size,
  each pipeline holds the same fitted feature map in both executions, namely the one fitted
  from a fresh generator seeded with 1, and so the same transformed training matrix.
\<close>

theorem seeded_feature_maps_agree:
  assumes "baseline lib sp w = Inr a0" and "baseline lib sp w' = Inr b0"
    and "i < 9"
    and "sweep lib sp (take (Suc i) sample_sizes) a0 = Inr a"
    and "sweep lib sp (take (Suc i) sample_sizes) b0 = Inr b"
  shows "random_state feature_map_fourier = Some 1 \<and> random_state feature_map_nystroem = Some 1 \<and>
    (\<exists>fm_f Xt_f sv_f sv_f' fm_n Xt_n sv_n sv_n'.
       fst (fm_fit lib (feature_map_fourier\<lparr>n_components := sample_sizes ! i\<rparr>) (RandomState lib 1)
              (data_train sp)) = Inr fm_f \<and>
       fm_transform lib fm_f (data_train sp) = Inr Xt_f \<and>
       fitted (fourier_approx_svm a) = Some (fm_f, sv_f) \<and>
       fitted (fourier_approx_svm b) = Some (fm_f, sv_f') \<and>
       fst (fm_fit lib (feature_map_nystroem\<lparr>n_components := sample_sizes ! i\<rparr>) (RandomState lib 1)
              (data_train sp)) = Inr fm_n \<and>
       fm_transform lib fm_n (data_train sp) = Inr Xt_n \<and>
       fitted (nystroem_approx_svm a) = Some (fm_n, sv_n) \<and>
       fitted (nystroem_approx_svm b) = Some (fm_n, sv_n'))"
proof -
  have i: "i < length sample_sizes" using assms(3) by (simp add: sample_sizes_eq)
  from sweep_last_feature_maps [OF assms(1) i assms(4)]
    sweep_last_feature_maps [OF assms(2) i assms(5)]
  show ?thesis
    by (auto simp: feature_map_fourier_def feature_map_nystroem_def)
qed

theorem seeded_feature_maps_agree_witness:
  "\<exists>a0 b0 a b.
     baseline example_lib (train_test_split example_lib example_digits) (example_world 0) = Inr a0 \<and>
     baseline example_lib (train_test_split example_lib example_digits) (example_world 5) = Inr b0 \<and>
     sweep example_lib (train_test_split example_lib example_digits) (take (Suc 2) sample_sizes) a0
       = Inr a \<and>
     sweep example_lib (train_test_split example_lib example_digits) (take (Suc 2) sample_sizes) b0
       = Inr b \<and>
     map_option fst (fitted (fourier_approx_svm a)) = map_option fst (fitted (fourier_approx_svm b)) \<and>
     map_option fst (fitted (nystroem_approx_svm a)) =
       map_option fst (fitted (nystroem_approx_svm b)) \<and>
     fitted (fourier_approx_svm a) \<noteq> None \<and> fitted (nystroem_approx_svm a) \<noteq> None \<and>
     np_random (env a) = 8 \<and> np_random (env b) = 13"
proof -
  from example_prefix_runs obtain a0 b0 a b where
    r: "baseline example_lib (train_test_split example_lib example_digits) (example_world 0) = Inr a0"
       "baseline example_lib (train_test_split example_lib example_digits) (example_world 5) = Inr b0"
       "sweep example_lib (train_test_split example_lib example_digits) (take (Suc 2) sample_sizes) a0
          = Inr a"
       "sweep example_lib (train_test_split example_lib example_digits) (take (Suc 2) sample_sizes) b0
          = Inr b" and
    g: "np_random (env a) = 8" "np_random (env b) = 13"
    by blast
  have "(2::nat) < 9" by simp
  from seeded_feature_maps_agree [OF r(1) r(2) this r(3) r(4)] have
    e: "map_option fst (fitted (fourier_approx_svm a)) = map_option fst (fitted (fourier_approx_svm b))"
       "map_option fst (fitted (nystroem_approx_svm a)) =
          map_option fst (fitted (nystroem_approx_svm b))"
       "fitted (fourier_approx_svm a) \<noteq> None" "fitted (nystroem_approx_svm a) \<noteq> None"
    by auto
  show ?thesis using r g e by blast
qed


section \<open>Seeds and draws in the covariance notebook\<close>

lemma range_n_outliers_eq: "range_n_outliers = [0, 5 / 2, 5, 15 / 2, 10, 35 / 2, 25, 65 / 2]"
  by code_simp


lemma length_range_n_outliers: "length range_n_outliers = 8"
  by (simp add: range_n_outliers_eq)

lemma in_iterations:
  "(i, n, j) \<in> set iterations \<longleftrightarrow> i < 8 \<and> n = range_n_outliers ! i \<and> j < 10"
proof
  assume "(i, n, j) \<in> set iterations"
  then obtain p where p: "p \<in> set (enumerate 0 range_n_outliers)"
    and m: "(i, n, j) \<in> set ((\<lambda>(i', n'). map (\<lambda>j. (i', n', j)) [0..<repeat]) p)"
    unfolding iterations_def set_concat set_map by blast
  obtain a b where ab: "p = (a, b)" by (cases p)
  from m have e: "i = a" "n = b" "j < repeat"
    unfolding ab by auto
  from p have "a < length range_n_outliers \<and> range_n_outliers ! a = b"
    unfolding ab by (simp add: in_set_enumerate_eq)
  with e show "i < 8 \<and> n = range_n_outliers ! i \<and> j < 10"
    by (simp add: length_range_n_outliers repeat_def)
next
  assume a: "i < 8 \<and> n = range_n_outliers ! i \<and> j < 10"
  then have "(i, n) \<in> set (enumerate 0 range_n_outliers)"
    by (simp add: in_set_enumerate_eq length_range_n_outliers)
  moreover have "(i, n, j) \<in> set ((\<lambda>(i', n'). map (\<lambda>j. (i', n', j)) [0..<repeat]) (i, n))"
    using a by (simp add: repeat_def)
  ultimately show "(i, n, j) \<in> set iterations"
    unfolding iterations_def set_concat set_map by blast
qed

lemma levels_nonneg: "i < 8 \<Longrightarrow> 0 \<le> range_n_outliers ! i"
  by (auto simp: range_n_outliers_eq nth_Cons')

lemma seeded_draws_seed:
  "i * j = i' * j' \<Longrightarrow> seeded_draws np i j = seeded_draws np i' j'"
  by (simp add: seeded_draws_def)

lemma outliers_index_of_nonneg:
  "0 \<le> n \<Longrightarrow> outliers_index_of np i j n = take (nat \<lfloor>n\<rfloor>) (snd (seeded_draws np i j))"
  by (simp add: outliers_index_of_def slice_to_def py_int_def)

lemma generate_data_Inr:
  "generate_data np i j n g = Inr d \<Longrightarrow>
   outliers_index d = outliers_index_of np i j n \<and>
   outliers_offset d = fst (outliers_offset_of np n g) \<and>
   np_random_after d = snd (outliers_offset_of np n g)"
  by (auto simp: generate_data_def Let_def split: prod.splits if_splits)

text \<open>
  C7 (amended). The generator of the pass (i, j) is seeded with the product i * j. For two
  passes with the same product, the matrix X as generated and the permutation the outliers
  are taken from are the same. The outlier indices of a pass are the first \<open>\<lfloor>n_outliers\<rfloor>\<close>
  entries of that permutation: the two passes choose the same indices when their levels
  round to the same count, and none at the level i = 0, so the ten repetitions of that
  level agree. The offsets are computed from the global generator, not from the seeded one.
\<close>

theorem same_seed_same_draws:
  assumes "(i, n, j) \<in> set iterations" and "(i', n', j') \<in> set iterations"
    and "i * j = i' * j'"
  shows "seeded_draws np i j = seeded_draws np i' j' \<and>
     outliers_index_of np i j n = take (nat \<lfloor>n\<rfloor>) (snd (seeded_draws np i j)) \<and>
     outliers_index_of np i' j' n' = take (nat \<lfloor>n'\<rfloor>) (snd (seeded_draws np i j)) \<and>
     (\<lfloor>n\<rfloor> = \<lfloor>n'\<rfloor> \<longrightarrow> outliers_index_of np i j n = outliers_index_of np i' j' n') \<and>
     (i = 0 \<longrightarrow> outliers_index_of np i j n = []) \<and>
     (\<forall>g g' d d'.
        generate_data np i j n g = Inr d \<longrightarrow> generate_data np i' j' n' g' = Inr d' \<longrightarrow>
        outliers_index d = outliers_index_of np i j n \<and>
        outliers_index d' = outliers_index_of np i' j' n' \<and>
        outliers_offset d = fst (outliers_offset_of np n g) \<and>
        outliers_offset d' = fst (outliers_offset_of np n' g'))"
proof -
  from assms(1) have i: "i < 8" and n: "n = range_n_outliers ! i"
    by (simp_all add: in_iterations)
  from assms(2) have i': "i' < 8" and n': "n' = range_n_outliers ! i'"
    by (simp_all add: in_iterations)
  have nn: "0 \<le> n" "0 \<le> n'" using levels_nonneg i i' n n' by simp_all
  have d: "seeded_draws np i j = seeded_draws np i' j'"
    using assms(3) by (rule seeded_draws_seed)
  have a: "outliers_index_of np i j n = take (nat \<lfloor>n\<rfloor>) (snd (seeded_draws np i j))"
    using nn(1) by (rule outliers_index_of_nonneg)
  have b: "outliers_index_of np i' j' n' = take (nat \<lfloor>n'\<rfloor>) (snd (seeded_draws np i j))"
    using outliers_index_of_nonneg [OF nn(2), of np i' j'] d by simp
  have z: "outliers_index_of np i j n = []" if "i = 0"
    using that a n by (simp add: range_n_outliers_eq)
  show ?thesis
    using d a b z generate_data_Inr [of np] by auto
qed

lemma example_index_2_3: "outliers_index_of example_numpy 2 3 5 = [79, 78, 77, 76, 75]"
  by code_simp

lemma example_index_3_2:
  "outliers_index_of example_numpy 3 2 (15 / 2) = [79, 78, 77, 76, 75, 74, 73]"
  by code_simp

theorem same_seed_same_draws_witness:
  "(2, 5, 3) \<in> set iterations \<and> (3, 15 / 2, 2) \<in> set iterations \<and> (2::nat) * 3 = 3 * 2 \<and>
   seeded_draws example_numpy 2 3 = seeded_draws example_numpy 3 2 \<and>
   outliers_index_of example_numpy 2 3 5 = take 5 (snd (seeded_draws example_numpy 2 3)) \<and>
   outliers_index_of example_numpy 3 2 (15 / 2) = take 7 (snd (seeded_draws example_numpy 2 3)) \<and>
   outliers_index_of example_numpy 2 3 5 = [79, 78, 77, 76, 75] \<and>
   outliers_index_of example_numpy 3 2 (15 / 2) = [79, 78, 77, 76, 75, 74, 73]"
proof -
  have m1: "(2, 5, 3) \<in> set iterations"
    by (simp add: in_iterations range_n_outliers_eq)
  have m2: "(3, 15 / 2, 2) \<in> set iterations"
    by (simp add: in_iterations range_n_outliers_eq)
  have p: "(2::nat) * 3 = 3 * 2" by simp
  have f1: "nat \<lfloor>5::rat\<rfloor> = 5" by simp
  have f2: "nat \<lfloor>15 / 2 :: rat\<rfloor> = 7" by code_simp
  from same_seed_same_draws [OF m1 m2 p, of example_numpy]
  show ?thesis
    unfolding f1 f2 using m1 m2 example_index_2_3 example_index_3_2 by simp
qed

text \<open>
  C7 as stated fails: the first repetitions of the levels 0 and 2.5 both seed with 0, and
  the first chooses no index where the second chooses two.
\<close>

theorem same_product_index_sets_differ:
  "(0, 0, 0) \<in> set iterations \<and> (1, 5 / 2, 0) \<in> set iterations \<and> (0::nat) * 0 = 1 * 0 \<and>
   outliers_index_of example_numpy 0 0 0 = [] \<and>
   outliers_index_of example_numpy 1 0 (5 / 2) = [79, 78] \<and>
   outliers_index_of example_numpy 0 0 0 \<noteq> outliers_index_of example_numpy 1 0 (5 / 2)"
proof -
  have m1: "(0, 0, 0) \<in> set iterations"
    by (simp add: in_iterations range_n_outliers_eq)
  have m2: "(1, 5 / 2, 0) \<in> set iterations"
    by (simp add: in_iterations range_n_outliers_eq)
  have a: "outliers_index_of example_numpy 0 0 0 = []" by code_simp
  have b: "outliers_index_of example_numpy 1 0 (5 / 2) = [79, 78]" by code_simp
  show ?thesis using m1 m2 a b by simp
qed


section \<open>Runs of scripts without handlers\<close>

lemma step_uncaught: "uncaught_only r (step r e)"
  by (auto simp: uncaught_only_def step_def nth_append less_Suc_eq split: if_splits)

lemma seq_uncaught:
  assumes "\<And>f. f \<in> set fs \<Longrightarrow> uncaught_only r f"
  shows "uncaught_only r (seq fs)"
  using assms
proof (induction fs)
  case Nil
  show ?case by (simp add: uncaught_only_def)
next
  case (Cons f fs)
  have f: "uncaught_only r f" using Cons.prems by simp
  have fs: "uncaught_only r (seq fs)" using Cons.IH Cons.prems by simp
  show ?case
    unfolding uncaught_only_def
  proof (intro allI impI)
    fix past out evs
    assume run: "seq (f # fs) past = (out, evs)"
    obtain o1 d1 where f1: "f past = (o1, d1)" by (cases "f past")
    from f f1 obtain new1 where d1: "d1 = past @ new1"
      and r1: "\<And>k. length past \<le> k \<Longrightarrow> k < length d1 \<Longrightarrow> can_raise (d1 ! k) \<Longrightarrow> r k \<Longrightarrow>
                 Suc k = length d1 \<and> o1 = Raised"
      unfolding uncaught_only_def by blast
    show "(\<exists>new. evs = past @ new) \<and>
        (\<forall>k. length past \<le> k \<and> k < length evs \<and> can_raise (evs ! k) \<and> r k \<longrightarrow>
           Suc k = length evs \<and> out = Raised)"
    proof (cases "o1 = Completed")
      case False
      with run f1 have "out = o1" "evs = d1" by (cases o1; simp)+
      with d1 r1 show ?thesis by blast
    next
      case True
      with run f1 have rest: "seq fs d1 = (out, evs)" by simp
      from fs rest obtain new2 where e: "evs = d1 @ new2"
        and r2: "\<And>k. length d1 \<le> k \<Longrightarrow> k < length evs \<Longrightarrow> can_raise (evs ! k) \<Longrightarrow> r k \<Longrightarrow>
                 Suc k = length evs \<and> out = Raised"
        unfolding uncaught_only_def by blast
      have "Suc k = length evs \<and> out = Raised"
        if k: "length past \<le> k" "k < length evs" "can_raise (evs ! k)" "r k" for k
      proof (cases "k < length d1")
        case False
        then have "length d1 \<le> k" by simp
        then show ?thesis using r2 [of k] k by simp
      next
        case lt: True
        then have "evs ! k = d1 ! k" by (simp add: e nth_append)
        with r1 [of k] k lt have "o1 = Raised" by simp
        with True show ?thesis by simp
      qed
      then show ?thesis using e d1 by auto
    qed
  qed
qed

lemma exec_uncaught: "\<not> has_try s \<Longrightarrow> uncaught_only r (exec r s)"
proof (induction s)
  case (Import m)
  show ?case by (simp add: step_uncaught)
next
  case (Simple cs)
  show ?case by (auto intro!: seq_uncaught simp: step_uncaught)
next
  case (Shell c)
  show ?case by (simp add: step_uncaught)
next
  case (For cs n b)
  have "\<And>x. x \<in> set b \<Longrightarrow> uncaught_only r (exec r x)"
    using For by (auto simp: list_ex_iff)
  then have "uncaught_only r (seq (map (exec r) b))"
    by (auto intro!: seq_uncaught)
  then show ?case
    by (auto intro!: seq_uncaught simp: step_uncaught)
next
  case (Try b h)
  then show ?case by simp
next
  case (Def f b)
  show ?case by (simp add: uncaught_only_def)
next
  case Unparsable
  show ?case by (simp add: uncaught_only_def)
qed

lemma run_uncaught:
  assumes "\<not> list_ex has_try ss" and "run r ss = (out, evs)"
    and "k < length evs" and "can_raise (evs ! k)" and "r k"
  shows "Suc k = length evs \<and> out = Raised"
proof -
  have "uncaught_only r (seq (map (exec r) ss))"
    using assms(1) by (auto intro!: seq_uncaught exec_uncaught simp: list_ex_iff)
  with assms(2-) show ?thesis
    unfolding uncaught_only_def run_def by (metis le0 list.size(3))
qed

lemma seq_replicate_events:
  assumes "\<And>past. g past = (Completed, past @ xs)"
  shows "seq (replicate n g) past = (Completed, past @ concat (replicate n xs))"
  by (induction n arbitrary: past) (simp_all add: assms)

lemma seq_steps_events:
  "seq (map (\<lambda>c. step (\<lambda>k. False) (Called c)) cs) past = (Completed, past @ map Called cs)"
  by (induction cs arbitrary: past) (simp_all add: step_def)

lemma seq_events:
  assumes "\<And>s past. s \<in> set ss \<Longrightarrow> f s past = (Completed, past @ ev s)"
  shows "seq (map f ss) past = (Completed, past @ concat (map ev ss))"
  using assms by (induction ss arbitrary: past) simp_all

lemma seq_append:
  "seq (fs @ gs) past = (case seq fs past of (Completed, d) \<Rightarrow> seq gs d | (out, d) \<Rightarrow> (out, d))"
  by (induction fs arbitrary: past) (auto split: prod.splits outcome.splits)

lemma exec_events:
  "\<not> has_unparsable s \<Longrightarrow> exec (\<lambda>k. False) s past = (Completed, past @ events s)"
proof (induction s arbitrary: past)
  case (Import m)
  show ?case by (simp add: step_def)
next
  case (Simple cs)
  show ?case by (simp add: seq_steps_events)
next
  case (Shell c)
  show ?case by (simp add: step_def)
next
  case (For cs n b)
  have "\<And>x past. x \<in> set b \<Longrightarrow> exec (\<lambda>k. False) x past = (Completed, past @ events x)"
    using For by (auto simp: list_ex_iff)
  then have "\<And>past. seq (map (exec (\<lambda>k. False)) b) past = (Completed, past @ concat (map events b))"
    by (rule seq_events)
  then show ?case
    by (simp add: seq_append seq_steps_events seq_replicate_events)
next
  case (Try b h)
  have "\<And>x past. x \<in> set b \<Longrightarrow> exec (\<lambda>k. False) x past = (Completed, past @ events x)"
    using Try by (auto simp: list_ex_iff)
  then have "\<And>past. seq (map (exec (\<lambda>k. False)) b) past = (Completed, past @ concat (map events b))"
    by (rule seq_events)
  then show ?case by simp
next
  case (Def f b)
  show ?case by simp
next
  case Unparsable
  then show ?case by simp
qed

lemma run_events:
  "\<not> list_ex has_unparsable ss \<Longrightarrow> run (\<lambda>k. False) ss = (Completed, events_of ss)"
  unfolding run_def events_of_def
  using seq_events [of ss "exec (\<lambda>k. False)" events "[]"] exec_events
  by (auto simp: list_ex_iff)


text \<open>
  Without a handler, what a run does is an initial segment of the events in program
  order, and all of them when the run completes.
\<close>

lemma seq_Completed:
  "fst (f past) = Completed \<Longrightarrow> seq (f # fs) past = seq fs (snd (f past))"
  by (cases "f past") simp

lemma seq_not_Completed:
  "fst (f past) \<noteq> Completed \<Longrightarrow> seq (f # fs) past = f past"
  by (cases "f past"; cases "fst (f past)") auto

lemma seq_prefix:
  assumes "\<forall>fe \<in> set fes. \<forall>past. \<exists>new. snd (fst fe past) = past @ new \<and> prefix new (snd fe) \<and>
     (fst (fst fe past) = Completed \<longrightarrow> new = snd fe)"
  shows "\<exists>new. snd (seq (map fst fes) past) = past @ new \<and> prefix new (concat (map snd fes)) \<and>
     (fst (seq (map fst fes) past) = Completed \<longrightarrow> new = concat (map snd fes))"
  using assms
proof (induction fes arbitrary: past)
  case Nil
  show ?case by simp
next
  case (Cons fe fes)
  obtain f e where fe: "fe = (f, e)" by (cases fe)
  from Cons.prems fe have "\<exists>new1. snd (f past) = past @ new1 \<and> prefix new1 e \<and>
      (fst (f past) = Completed \<longrightarrow> new1 = e)"
    by simp
  then obtain new1 where
    n1: "snd (f past) = past @ new1" "prefix new1 e" "fst (f past) = Completed \<longrightarrow> new1 = e"
    by blast
  show ?case
  proof (cases "fst (f past) = Completed")
    case True
    with n1 have e: "new1 = e" by simp
    have "\<forall>fe \<in> set fes. \<forall>past. \<exists>new. snd (fst fe past) = past @ new \<and> prefix new (snd fe) \<and>
       (fst (fst fe past) = Completed \<longrightarrow> new = snd fe)"
      using Cons.prems by simp
    from Cons.IH [of "past @ e"] this obtain new2 where
      n2: "snd (seq (map fst fes) (past @ e)) = (past @ e) @ new2"
        "prefix new2 (concat (map snd fes))"
        "fst (seq (map fst fes) (past @ e)) = Completed \<longrightarrow> new2 = concat (map snd fes)"
      by blast
    have s: "seq (map fst (fe # fes)) past = seq (map fst fes) (past @ e)"
      using seq_Completed [of f past "map fst fes"] True n1(1) e by (simp add: fe del: seq.simps)
    show ?thesis
      unfolding s using n2 by (intro exI [of _ "e @ new2"]) (simp add: fe)
  next
    case False
    have s: "seq (map fst (fe # fes)) past = f past"
      using seq_not_Completed [of f past "map fst fes"] False by (simp add: fe del: seq.simps)
    show ?thesis
      unfolding s using n1 False by (intro exI [of _ new1]) (auto simp: fe prefix_def)
  qed
qed

lemma step_prefix:
  "\<exists>new. snd (step r e past) = past @ new \<and> prefix new [e] \<and>
     (fst (step r e past) = Completed \<longrightarrow> new = [e])"
  by (simp add: step_def)

lemma steps_prefix:
  "\<exists>new. snd (seq (map (\<lambda>c. step r (Called c)) cs) past) = past @ new \<and>
     prefix new (map Called cs) \<and>
     (fst (seq (map (\<lambda>c. step r (Called c)) cs) past) = Completed \<longrightarrow> new = map Called cs)"
proof -
  let ?fes = "map (\<lambda>c. (step r (Called c), [Called c])) cs"
  have m: "map fst ?fes = map (\<lambda>c. step r (Called c)) cs" by (simp add: comp_def)
  have c: "concat (map snd ?fes) = map Called cs" by (induction cs) simp_all
  have h: "\<forall>fe \<in> set ?fes. \<forall>past. \<exists>new. snd (fst fe past) = past @ new \<and> prefix new (snd fe) \<and>
     (fst (fst fe past) = Completed \<longrightarrow> new = snd fe)"
    using step_prefix by auto
  have "\<exists>new. snd (seq (map fst ?fes) past) = past @ new \<and>
     prefix new (concat (map snd ?fes)) \<and>
     (fst (seq (map fst ?fes) past) = Completed \<longrightarrow> new = concat (map snd ?fes))"
    using h by (rule seq_prefix)
  then show ?thesis unfolding m c .
qed

lemma stmts_prefix:
  assumes "\<forall>x \<in> set b. \<forall>past. \<exists>new. snd (exec r x past) = past @ new \<and> prefix new (events x) \<and>
       (fst (exec r x past) = Completed \<longrightarrow> new = events x)"
  shows "\<exists>new. snd (seq (map (exec r) b) past) = past @ new \<and>
     prefix new (concat (map events b)) \<and>
     (fst (seq (map (exec r) b) past) = Completed \<longrightarrow> new = concat (map events b))"
proof -
  let ?fes = "map (\<lambda>x. (exec r x, events x)) b"
  have m: "map fst ?fes = map (exec r) b" by (simp add: comp_def)
  have c: "concat (map snd ?fes) = concat (map events b)" by (simp add: comp_def)
  have h: "\<forall>fe \<in> set ?fes. \<forall>past. \<exists>new. snd (fst fe past) = past @ new \<and> prefix new (snd fe) \<and>
     (fst (fst fe past) = Completed \<longrightarrow> new = snd fe)"
    using assms by auto
  have "\<exists>new. snd (seq (map fst ?fes) past) = past @ new \<and>
     prefix new (concat (map snd ?fes)) \<and>
     (fst (seq (map fst ?fes) past) = Completed \<longrightarrow> new = concat (map snd ?fes))"
    using h by (rule seq_prefix)
  then show ?thesis unfolding m c .
qed

lemma exec_prefix:
  "\<not> has_try s \<Longrightarrow>
   \<exists>new. snd (exec r s past) = past @ new \<and> prefix new (events s) \<and>
     (fst (exec r s past) = Completed \<longrightarrow> new = events s)"
proof (induction s arbitrary: past)
  case (Import m)
  show ?case using step_prefix [of r "Imported m" past] by simp
next
  case (Simple cs)
  show ?case using steps_prefix [of r cs past] by simp
next
  case (Shell c)
  show ?case using step_prefix [of r "Ran c" past] by simp
next
  case (For cs n b)
  have b: "\<forall>x \<in> set b. \<forall>past. \<exists>new. snd (exec r x past) = past @ new \<and> prefix new (events x) \<and>
       (fst (exec r x past) = Completed \<longrightarrow> new = events x)"
    using For by (auto simp: list_ex_iff)
  have g: "\<And>past. \<exists>new. snd (seq (map (exec r) b) past) = past @ new \<and>
     prefix new (concat (map events b)) \<and>
     (fst (seq (map (exec r) b) past) = Completed \<longrightarrow> new = concat (map events b))"
    using b by (rule stmts_prefix)
  let ?g = "seq (map (exec r) b)"
  let ?fes = "map (\<lambda>c. (step r (Called c), [Called c])) cs @
     replicate n (?g, concat (map events b))"
  have m: "map fst ?fes = map (\<lambda>c. step r (Called c)) cs @ replicate n ?g"
    by (simp add: comp_def)
  have cc: "concat (map (snd \<circ> (\<lambda>c. (step r (Called c), [Called c]))) cs) = map Called cs"
    by (induction cs) simp_all
  have c: "concat (map snd ?fes) = map Called cs @ concat (replicate n (concat (map events b)))"
    by (simp add: cc)
  have h: "\<forall>fe \<in> set ?fes. \<forall>past. \<exists>new. snd (fst fe past) = past @ new \<and> prefix new (snd fe) \<and>
     (fst (fst fe past) = Completed \<longrightarrow> new = snd fe)"
    using step_prefix g by auto
  have "\<exists>new. snd (seq (map fst ?fes) past) = past @ new \<and>
     prefix new (concat (map snd ?fes)) \<and>
     (fst (seq (map fst ?fes) past) = Completed \<longrightarrow> new = concat (map snd ?fes))"
    using h by (rule seq_prefix)
  then show ?case unfolding m c by simp
next
  case (Try b h)
  then show ?case by simp
next
  case (Def f b)
  show ?case by simp
next
  case Unparsable
  show ?case by simp
qed

lemma run_prefix:
  assumes "\<not> list_ex has_try ss"
  shows "prefix (snd (run r ss)) (events_of ss)"
proof -
  have "\<forall>x \<in> set ss. \<forall>past. \<exists>new. snd (exec r x past) = past @ new \<and> prefix new (events x) \<and>
       (fst (exec r x past) = Completed \<longrightarrow> new = events x)"
    using assms exec_prefix by (auto simp: list_ex_iff)
  then have "\<exists>new. snd (seq (map (exec r) ss) []) = [] @ new \<and>
     prefix new (concat (map events ss)) \<and>
     (fst (seq (map (exec r) ss) []) = Completed \<longrightarrow> new = concat (map events ss))"
    by (rule stmts_prefix)
  then show ?thesis
    by (auto simp: run_def events_of_def)
qed


section \<open>The events of the two notebooks\<close>

lemma events_of_append: "events_of (ss @ ts) = events_of ss @ events_of ts"
  by (simp add: events_of_def)

lemma list_ex_concat_replicate:
  "list_ex P (concat (replicate n xs)) = (0 < n \<and> list_ex P xs)"
  by (induction n) auto

lemma list_ex_replicate: "list_ex P (replicate n x) = (0 < n \<and> P x)"
  by (induction n) auto

lemma filter_concat_replicate:
  "filter P (concat (replicate n xs)) = concat (replicate n (filter P xs))"
  by (induction n) auto

lemma length_concat_replicate: "length (concat (replicate n xs)) = n * length xs"
  by (induction n) auto

lemma publish_events:
  "events_of publish_cell_source =
     [Imported ''IPython.display'', Called ''HTML'', Called ''display'', Called ''HTML'',
      Called ''display'',
      Ran ''pip install git+https://github.com/plotly/publisher.git --upgrade'',
      Imported ''publisher'', Called ''publisher.publish'']"
  by (simp add: events_of_def publish_cell_source_def)

lemma kernel_program: "program kernel_notebook = kernel_work @ publish_cell_source"
  by (simp add: program_def kernel_notebook_def kernel_work_def kernel_publish_cell_def
      empty_cell_def)

lemma covariance_program: "program covariance_notebook = covariance_work @ publish_cell_source"
  by (simp add: program_def covariance_notebook_def covariance_work_def
      covariance_publish_cell_def empty_cell_def)

lemmas kernel_cells = kernel_work_def kernel_version_cell_def kernel_imports_cell_def
  kernel_calculations_cell_def kernel_accuracy_plot_cell_def kernel_surface_plot_cell_def

lemmas covariance_cells = covariance_work_def covariance_version_cell_def
  covariance_imports_cell_def covariance_calculations_cell_def
  covariance_location_figure_cell_def covariance_location_plot_cell_def
  covariance_covariance_figure_cell_def covariance_covariance_plot_cell_def

lemma kernel_work_no_publish: "\<not> list_ex is_publish (events_of kernel_work)"
  by (simp add: kernel_cells events_of_def is_publish_def list_ex_concat_replicate
      list_ex_replicate)

lemma covariance_work_no_publish: "\<not> list_ex is_publish (events_of covariance_work)"
  by (simp add: covariance_cells events_of_def is_publish_def list_ex_concat_replicate
      list_ex_replicate)

lemma kernel_work_plots: "length (filter is_plot (events_of kernel_work)) = 2"
  by (simp add: kernel_cells events_of_def is_plot_def filter_concat_replicate)

lemma covariance_work_plots: "length (filter is_plot (events_of covariance_work)) = 2"
  by (simp add: covariance_cells events_of_def is_plot_def filter_concat_replicate)

lemma kernel_parsable: "\<not> list_ex has_unparsable (program kernel_notebook)"
  by (simp add: kernel_program kernel_cells publish_cell_source_def)

lemma covariance_parsable: "\<not> list_ex has_unparsable (program covariance_notebook)"
  by (simp add: covariance_program covariance_cells publish_cell_source_def)

lemma kernel_no_try: "\<not> list_ex has_try (program kernel_notebook)"
  by (simp add: kernel_program kernel_cells publish_cell_source_def)

lemma covariance_no_try: "\<not> list_ex has_try (program covariance_notebook)"
  by (simp add: covariance_program covariance_cells publish_cell_source_def)

lemma line_138_tokens:
  "r_lex Top [] line_138 =
     [Sym ''family'', Punct (CHR ''=''), Str [], Sym ''Open'', Sym ''sans'',
      Str '', verdana, arial, sans-serif'', Punct (CHR '','')]"
  by (simp add: line_138_def is_sym_char_def)

lemma layout_unparsable: "layout_assignment = Unparsable"
  by (simp add: layout_assignment_def line_138_tokens)

lemma r_script_no_try: "\<not> list_ex has_try r_script"
  by (simp add: r_script_def layout_unparsable)

lemma last_is_publish:
  assumes "program nb = work @ publish_cell_source"
  shows "events_of (program nb) =
      butlast (events_of (program nb)) @ [Called ''publisher.publish'']"
  by (simp add: assms events_of_append publish_events butlast_append)

lemma before_publish:
  assumes "program nb = work @ publish_cell_source"
  shows "butlast (events_of (program nb)) =
    events_of work @ butlast (events_of publish_cell_source)"
  by (simp add: assms events_of_append publish_events butlast_append)

lemma work_filter:
  assumes "events_of (program nb) =
      butlast (events_of (program nb)) @ [Called ''publisher.publish'']"
  shows "filter (\<lambda>e. is_dataset_load e \<or> is_fit e \<or> is_plot e) (events_of (program nb)) =
    filter (\<lambda>e. is_dataset_load e \<or> is_fit e \<or> is_plot e) (butlast (events_of (program nb)))"
proof -
  have "\<not> (is_dataset_load (Called ''publisher.publish'') \<or> is_fit (Called ''publisher.publish'') \<or>
      is_plot (Called ''publisher.publish''))"
    by (simp add: is_dataset_load_def is_fit_def is_plot_def)
  then have "filter (\<lambda>e. is_dataset_load e \<or> is_fit e \<or> is_plot e)
       (butlast (events_of (program nb)) @ [Called ''publisher.publish'']) =
     filter (\<lambda>e. is_dataset_load e \<or> is_fit e \<or> is_plot e) (butlast (events_of (program nb)))"
    by simp
  with assms show ?thesis by simp
qed

text \<open>
  C4. In both notebooks, run from top to bottom, the call of \<open>publisher.publish\<close> is
  the last event: it occurs once, at the end, and every dataset load, every estimator fit
  and every call of the plotting service (there are two in each notebook) comes before it.
\<close>

theorem publish_is_last:
  "run (\<lambda>k. False) (program kernel_notebook) = (Completed, events_of (program kernel_notebook)) \<and>
   events_of (program kernel_notebook) =
     butlast (events_of (program kernel_notebook)) @ [Called ''publisher.publish''] \<and>
   \<not> list_ex is_publish (butlast (events_of (program kernel_notebook))) \<and>
   filter (\<lambda>e. is_dataset_load e \<or> is_fit e \<or> is_plot e) (events_of (program kernel_notebook)) =
     filter (\<lambda>e. is_dataset_load e \<or> is_fit e \<or> is_plot e)
       (butlast (events_of (program kernel_notebook))) \<and>
   length (filter is_plot (butlast (events_of (program kernel_notebook)))) = 2 \<and>
   run (\<lambda>k. False) (program covariance_notebook) =
     (Completed, events_of (program covariance_notebook)) \<and>
   events_of (program covariance_notebook) =
     butlast (events_of (program covariance_notebook)) @ [Called ''publisher.publish''] \<and>
   \<not> list_ex is_publish (butlast (events_of (program covariance_notebook))) \<and>
   filter (\<lambda>e. is_dataset_load e \<or> is_fit e \<or> is_plot e) (events_of (program covariance_notebook)) =
     filter (\<lambda>e. is_dataset_load e \<or> is_fit e \<or> is_plot e)
       (butlast (events_of (program covariance_notebook))) \<and>
   length (filter is_plot (butlast (events_of (program covariance_notebook)))) = 2"
proof -
  note k0 = last_is_publish [OF kernel_program]
  note c0 = last_is_publish [OF covariance_program]
  note kb = before_publish [OF kernel_program]
  note cb = before_publish [OF covariance_program]
  have k1: "\<not> list_ex is_publish (butlast (events_of (program kernel_notebook)))"
    using kernel_work_no_publish by (simp add: kb publish_events is_publish_def)
  have c1: "\<not> list_ex is_publish (butlast (events_of (program covariance_notebook)))"
    using covariance_work_no_publish by (simp add: cb publish_events is_publish_def)
  have k2: "length (filter is_plot (butlast (events_of (program kernel_notebook)))) = 2"
    using kernel_work_plots by (simp add: kb publish_events is_plot_def)
  have c2: "length (filter is_plot (butlast (events_of (program covariance_notebook)))) = 2"
    using covariance_work_plots by (simp add: cb publish_events is_plot_def)
  note rk = run_events [OF kernel_parsable]
  note rc = run_events [OF covariance_parsable]
  note wk = work_filter [OF k0]
  note wc = work_filter [OF c0]
  show ?thesis
    by (intro conjI) (fact rk k0 k1 wk k2 rc c0 c1 wc c2)+
qed

lemma covariance_no_dataset_load:
  "\<not> list_ex is_dataset_load (events_of (program covariance_notebook))"
  by (simp add: covariance_program covariance_cells events_of_def publish_cell_source_def
      is_dataset_load_def list_ex_concat_replicate list_ex_replicate)

lemma covariance_randn_count:
  "length (filter (\<lambda>e. e = Called ''rng.randn'') (events_of (program covariance_notebook))) = 80"
  by (simp add: covariance_program covariance_cells events_of_def publish_cell_source_def
      filter_concat_replicate length_concat_replicate length_range_n_outliers repeat_def)

lemma kernel_loads_first:
  "\<not> list_ex is_estimator (take 11 (events_of (program kernel_notebook))) \<and>
   events_of (program kernel_notebook) ! 11 = Called ''datasets.load_digits'' \<and>
   list_ex is_estimator (drop 12 (events_of (program kernel_notebook)))"
  by (simp add: kernel_program kernel_cells events_of_def is_estimator_def
      estimator_classes_def)

text \<open>
  The data of the Calculations cell: what the two classifiers of the baseline are fitted
  and scored on, which fitted feature maps a pass of the sweep leaves, and that the sweep
  keeps the baseline's results.
\<close>

lemma baseline_fits:
  assumes "baseline lib sp w = Inr s0"
  shows "\<exists>k_sv wa wb l_sv wc.
    estimator_fit lib (SVC (2 / 10)) (data_train sp) (targets_train sp) (snd (time w)) =
      Inr (k_sv, wa) \<and>
    svm_score lib k_sv (data_test sp) (targets_test sp) = Inr (kernel_svm_score s0) \<and>
    estimator_fit lib LinearSVC (data_train sp) (targets_train sp) wb = Inr (l_sv, wc) \<and>
    svm_score lib l_sv (data_test sp) (targets_test sp) = Inr (linear_svm_score s0)"
  using assms
  by (auto simp: baseline_def fit_score_timed_def Let_def split: sum.splits prod.splits) blast+

lemma sweep_pass_feature_maps:
  assumes bl: "baseline lib sp w = Inr s0"
    and run: "sweep lib sp sample_sizes s0 = Inr sf"
    and i: "i < 9"
  shows "\<exists>s' fm_f Xt_f sv_f fm_n Xt_n sv_n.
       sweep lib sp (take (Suc i) sample_sizes) s0 = Inr s' \<and>
       fst (fm_fit lib (feature_map_fourier\<lparr>n_components := sample_sizes ! i\<rparr>) (RandomState lib 1)
              (data_train sp)) = Inr fm_f \<and>
       fm_transform lib fm_f (data_train sp) = Inr Xt_f \<and>
       fitted (fourier_approx_svm s') = Some (fm_f, sv_f) \<and>
       fst (fm_fit lib (feature_map_nystroem\<lparr>n_components := sample_sizes ! i\<rparr>) (RandomState lib 1)
              (data_train sp)) = Inr fm_n \<and>
       fm_transform lib fm_n (data_train sp) = Inr Xt_n \<and>
       fitted (nystroem_approx_svm s') = Some (fm_n, sv_n)"
proof -
  have il: "i < length sample_sizes" using i by (simp add: sample_sizes_eq)
  from sweep_nth [OF run il] obtain s s' where
    p: "sweep lib sp (take i sample_sizes) s0 = Inr s" and
    b: "body lib sp (sample_sizes ! i) s = Inr s'"
    by blast
  have t: "take (Suc i) sample_sizes = take i sample_sizes @ [sample_sizes ! i]"
    using il by (simp add: take_Suc_conv_app_nth)
  have r: "sweep lib sp (take (Suc i) sample_sizes) s0 = Inr s'"
    unfolding t by (simp add: sweep_append p b)
  from sweep_last_feature_maps [OF bl il r] r show ?thesis by blast
qed

lemma sweep_keeps_baseline:
  "sweep lib sp Ds s = Inr sf \<Longrightarrow>
   kernel_svm_score sf = kernel_svm_score s \<and> linear_svm_score sf = linear_svm_score s \<and>
   kernel_svm_time sf = kernel_svm_time s \<and> linear_svm_time sf = linear_svm_time s"
proof (induction Ds arbitrary: s)
  case Nil
  then show ?case by simp
next
  case (Cons D Ds)
  from Cons.prems obtain s1 where b: "body lib sp D s = Inr s1" and r: "sweep lib sp Ds s1 = Inr sf"
    by (auto split: sum.splits)
  from body_Inr [OF b] have "kernel_svm_score s1 = kernel_svm_score s \<and>
    linear_svm_score s1 = linear_svm_score s \<and> kernel_svm_time s1 = kernel_svm_time s \<and>
    linear_svm_time s1 = linear_svm_time s"
    by auto
  with Cons.IH [OF r] show ?case by simp
qed

text \<open>
  C1 (amended). The kernel-approximation notebook calls \<open>datasets.load_digits\<close> before
  any estimator class: the call is its twelfth event, no estimator is built before it and
  the estimators are built after it. Its samples-by-features matrix comes from that call:
  if the loader raises, the cell raises; if the cell completes, the loader returned a data
  set, the matrix is that data set's \<open>data\<close> scaled and centred, split at half its
  length, and the two baseline classifiers and the feature map of either pipeline in each
  pass are fitted on the first part (the classifiers scored on the second). The covariance
  notebook calls no dataset loader: it generates its matrix X itself, once in each of its
  80 passes, with \<open>rng.randn\<close> on the generator seeded for the pass.
\<close>

theorem data_sources:
  "\<not> list_ex is_estimator (take 11 (events_of (program kernel_notebook))) \<and>
   events_of (program kernel_notebook) ! 11 = Called ''datasets.load_digits'' \<and>
   list_ex is_estimator (drop 12 (events_of (program kernel_notebook))) \<and>
   (\<forall>e. load_digits lib 9 = Inl e \<longrightarrow> calculations lib w = Inl e) \<and>
   (\<forall>sf. calculations lib w = Inr sf \<longrightarrow>
      (\<exists>digits s0.
         load_digits lib 9 = Inr digits \<and>
         centred_data lib digits =
           map (\<lambda>row. subtract lib row (mean_axis0 lib (map (scale16 lib) (data digits))))
             (map (scale16 lib) (data digits)) \<and>
         data_train (train_test_split lib digits) =
           take (length (data digits) div 2) (centred_data lib digits) \<and>
         targets_train (train_test_split lib digits) =
           take (length (data digits) div 2) (target digits) \<and>
         data_test (train_test_split lib digits) =
           drop (length (data digits) div 2) (centred_data lib digits) \<and>
         targets_test (train_test_split lib digits) =
           drop (length (data digits) div 2) (target digits) \<and>
         baseline lib (train_test_split lib digits) w = Inr s0 \<and>
         sweep lib (train_test_split lib digits) sample_sizes s0 = Inr sf \<and>
         (\<exists>k_sv wa wb l_sv wc.
            estimator_fit lib (SVC (2 / 10)) (data_train (train_test_split lib digits))
              (targets_train (train_test_split lib digits)) (snd (time w)) = Inr (k_sv, wa) \<and>
            svm_score lib k_sv (data_test (train_test_split lib digits))
              (targets_test (train_test_split lib digits)) = Inr (kernel_svm_score sf) \<and>
            estimator_fit lib LinearSVC (data_train (train_test_split lib digits))
              (targets_train (train_test_split lib digits)) wb = Inr (l_sv, wc) \<and>
            svm_score lib l_sv (data_test (train_test_split lib digits))
              (targets_test (train_test_split lib digits)) = Inr (linear_svm_score sf)) \<and>
         (\<forall>i < 9. \<exists>s' fm_f Xt_f sv_f fm_n Xt_n sv_n.
            sweep lib (train_test_split lib digits) (take (Suc i) sample_sizes) s0 = Inr s' \<and>
            fst (fm_fit lib (feature_map_fourier\<lparr>n_components := sample_sizes ! i\<rparr>)
                   (RandomState lib 1) (data_train (train_test_split lib digits))) = Inr fm_f \<and>
            fm_transform lib fm_f (data_train (train_test_split lib digits)) = Inr Xt_f \<and>
            fitted (fourier_approx_svm s') = Some (fm_f, sv_f) \<and>
            fst (fm_fit lib (feature_map_nystroem\<lparr>n_components := sample_sizes ! i\<rparr>)
                   (RandomState lib 1) (data_train (train_test_split lib digits))) = Inr fm_n \<and>
            fm_transform lib fm_n (data_train (train_test_split lib digits)) = Inr Xt_n \<and>
            fitted (nystroem_approx_svm s') = Some (fm_n, sv_n)))) \<and>
   \<not> list_ex is_dataset_load (events_of (program covariance_notebook)) \<and>
   length (filter (\<lambda>e. e = Called ''rng.randn'') (events_of (program covariance_notebook))) =
     length iterations \<and>
   length iterations = 80 \<and>
   fst (seeded_draws np i j) =
     fst (randn np (random_RandomState np (int (i * j))) n_samples n_features)"
proof -
  have l: "length iterations = 80"
    by (simp add: iterations_def length_concat comp_def split_def length_range_n_outliers
        repeat_def sum_list_triv)
  have s: "fst (seeded_draws np i j) =
     fst (randn np (random_RandomState np (int (i * j))) n_samples n_features)"
    by (simp add: seeded_draws_def Let_def split: prod.splits)
  have raise: "\<forall>e. load_digits lib 9 = Inl e \<longrightarrow> calculations lib w = Inl e"
    by (simp add: calculations_def)
  have flow: "\<exists>digits s0.
         load_digits lib 9 = Inr digits \<and>
         centred_data lib digits =
           map (\<lambda>row. subtract lib row (mean_axis0 lib (map (scale16 lib) (data digits))))
             (map (scale16 lib) (data digits)) \<and>
         data_train (train_test_split lib digits) =
           take (length (data digits) div 2) (centred_data lib digits) \<and>
         targets_train (train_test_split lib digits) =
           take (length (data digits) div 2) (target digits) \<and>
         data_test (train_test_split lib digits) =
           drop (length (data digits) div 2) (centred_data lib digits) \<and>
         targets_test (train_test_split lib digits) =
           drop (length (data digits) div 2) (target digits) \<and>
         baseline lib (train_test_split lib digits) w = Inr s0 \<and>
         sweep lib (train_test_split lib digits) sample_sizes s0 = Inr sf \<and>
         (\<exists>k_sv wa wb l_sv wc.
            estimator_fit lib (SVC (2 / 10)) (data_train (train_test_split lib digits))
              (targets_train (train_test_split lib digits)) (snd (time w)) = Inr (k_sv, wa) \<and>
            svm_score lib k_sv (data_test (train_test_split lib digits))
              (targets_test (train_test_split lib digits)) = Inr (kernel_svm_score sf) \<and>
            estimator_fit lib LinearSVC (data_train (train_test_split lib digits))
              (targets_train (train_test_split lib digits)) wb = Inr (l_sv, wc) \<and>
            svm_score lib l_sv (data_test (train_test_split lib digits))
              (targets_test (train_test_split lib digits)) = Inr (linear_svm_score sf)) \<and>
         (\<forall>i < 9. \<exists>s' fm_f Xt_f sv_f fm_n Xt_n sv_n.
            sweep lib (train_test_split lib digits) (take (Suc i) sample_sizes) s0 = Inr s' \<and>
            fst (fm_fit lib (feature_map_fourier\<lparr>n_components := sample_sizes ! i\<rparr>)
                   (RandomState lib 1) (data_train (train_test_split lib digits))) = Inr fm_f \<and>
            fm_transform lib fm_f (data_train (train_test_split lib digits)) = Inr Xt_f \<and>
            fitted (fourier_approx_svm s') = Some (fm_f, sv_f) \<and>
            fst (fm_fit lib (feature_map_nystroem\<lparr>n_components := sample_sizes ! i\<rparr>)
                   (RandomState lib 1) (data_train (train_test_split lib digits))) = Inr fm_n \<and>
            fm_transform lib fm_n (data_train (train_test_split lib digits)) = Inr Xt_n \<and>
            fitted (nystroem_approx_svm s') = Some (fm_n, sv_n))"
    if c: "calculations lib w = Inr sf" for sf
  proof -
    from c obtain digits s0 where
      ld: "load_digits lib 9 = Inr digits" and
      bl: "baseline lib (train_test_split lib digits) w = Inr s0" and
      sw: "sweep lib (train_test_split lib digits) sample_sizes s0 = Inr sf"
      by (auto simp: calculations_def split: sum.splits)
    have cd: "centred_data lib digits =
           map (\<lambda>row. subtract lib row (mean_axis0 lib (map (scale16 lib) (data digits))))
             (map (scale16 lib) (data digits))"
      by (simp add: centred_data_def Let_def)
    have sp: "data_train (train_test_split lib digits) =
           take (length (data digits) div 2) (centred_data lib digits)"
      "targets_train (train_test_split lib digits) =
           take (length (data digits) div 2) (target digits)"
      "data_test (train_test_split lib digits) =
           drop (length (data digits) div 2) (centred_data lib digits)"
      "targets_test (train_test_split lib digits) =
           drop (length (data digits) div 2) (target digits)"
      by (simp_all add: train_test_split_def Let_def)
    from sweep_keeps_baseline [OF sw] have keep:
      "kernel_svm_score sf = kernel_svm_score s0" "linear_svm_score sf = linear_svm_score s0"
      by simp_all
    from baseline_fits [OF bl] have fits: "\<exists>k_sv wa wb l_sv wc.
            estimator_fit lib (SVC (2 / 10)) (data_train (train_test_split lib digits))
              (targets_train (train_test_split lib digits)) (snd (time w)) = Inr (k_sv, wa) \<and>
            svm_score lib k_sv (data_test (train_test_split lib digits))
              (targets_test (train_test_split lib digits)) = Inr (kernel_svm_score sf) \<and>
            estimator_fit lib LinearSVC (data_train (train_test_split lib digits))
              (targets_train (train_test_split lib digits)) wb = Inr (l_sv, wc) \<and>
            svm_score lib l_sv (data_test (train_test_split lib digits))
              (targets_test (train_test_split lib digits)) = Inr (linear_svm_score sf)"
      unfolding keep .
    have passes: "\<forall>i < 9. \<exists>s' fm_f Xt_f sv_f fm_n Xt_n sv_n.
            sweep lib (train_test_split lib digits) (take (Suc i) sample_sizes) s0 = Inr s' \<and>
            fst (fm_fit lib (feature_map_fourier\<lparr>n_components := sample_sizes ! i\<rparr>)
                   (RandomState lib 1) (data_train (train_test_split lib digits))) = Inr fm_f \<and>
            fm_transform lib fm_f (data_train (train_test_split lib digits)) = Inr Xt_f \<and>
            fitted (fourier_approx_svm s') = Some (fm_f, sv_f) \<and>
            fst (fm_fit lib (feature_map_nystroem\<lparr>n_components := sample_sizes ! i\<rparr>)
                   (RandomState lib 1) (data_train (train_test_split lib digits))) = Inr fm_n \<and>
            fm_transform lib fm_n (data_train (train_test_split lib digits)) = Inr Xt_n \<and>
            fitted (nystroem_approx_svm s') = Some (fm_n, sv_n)"
      using sweep_pass_feature_maps [OF bl sw] by blast
    show ?thesis
      by (intro exI [of _ digits] exI [of _ s0] conjI) (fact ld cd sp bl sw fits passes)+
  qed
  note k = kernel_loads_first
  from k have k1: "\<not> list_ex is_estimator (take 11 (events_of (program kernel_notebook)))" by blast
  from k have k2: "events_of (program kernel_notebook) ! 11 = Called ''datasets.load_digits''" by blast
  from k have k3: "list_ex is_estimator (drop 12 (events_of (program kernel_notebook)))" by blast
  from flow have flow': "\<forall>sf. calculations lib w = Inr sf \<longrightarrow>
      (\<exists>digits s0.
         load_digits lib 9 = Inr digits \<and>
         centred_data lib digits =
           map (\<lambda>row. subtract lib row (mean_axis0 lib (map (scale16 lib) (data digits))))
             (map (scale16 lib) (data digits)) \<and>
         data_train (train_test_split lib digits) =
           take (length (data digits) div 2) (centred_data lib digits) \<and>
         targets_train (train_test_split lib digits) =
           take (length (data digits) div 2) (target digits) \<and>
         data_test (train_test_split lib digits) =
           drop (length (data digits) div 2) (centred_data lib digits) \<and>
         targets_test (train_test_split lib digits) =
           drop (length (data digits) div 2) (target digits) \<and>
         baseline lib (train_test_split lib digits) w = Inr s0 \<and>
         sweep lib (train_test_split lib digits) sample_sizes s0 = Inr sf \<and>
         (\<exists>k_sv wa wb l_sv wc.
            estimator_fit lib (SVC (2 / 10)) (data_train (train_test_split lib digits))
              (targets_train (train_test_split lib digits)) (snd (time w)) = Inr (k_sv, wa) \<and>
            svm_score lib k_sv (data_test (train_test_split lib digits))
              (targets_test (train_test_split lib digits)) = Inr (kernel_svm_score sf) \<and>
            estimator_fit lib LinearSVC (data_train (train_test_split lib digits))
              (targets_train (train_test_split lib digits)) wb = Inr (l_sv, wc) \<and>
            svm_score lib l_sv (data_test (train_test_split lib digits))
              (targets_test (train_test_split lib digits)) = Inr (linear_svm_score sf)) \<and>
         (\<forall>i < 9. \<exists>s' fm_f Xt_f sv_f fm_n Xt_n sv_n.
            sweep lib (train_test_split lib digits) (take (Suc i) sample_sizes) s0 = Inr s' \<and>
            fst (fm_fit lib (feature_map_fourier\<lparr>n_components := sample_sizes ! i\<rparr>)
                   (RandomState lib 1) (data_train (train_test_split lib digits))) = Inr fm_f \<and>
            fm_transform lib fm_f (data_train (train_test_split lib digits)) = Inr Xt_f \<and>
            fitted (fourier_approx_svm s') = Some (fm_f, sv_f) \<and>
            fst (fm_fit lib (feature_map_nystroem\<lparr>n_components := sample_sizes ! i\<rparr>)
                   (RandomState lib 1) (data_train (train_test_split lib digits))) = Inr fm_n \<and>
            fm_transform lib fm_n (data_train (train_test_split lib digits)) = Inr Xt_n \<and>
            fitted (nystroem_approx_svm s') = Some (fm_n, sv_n)))"
    by blast
  note nd = covariance_no_dataset_load
  have rc: "length (filter (\<lambda>e. e = Called ''rng.randn'') (events_of (program covariance_notebook))) =
     length iterations"
    using covariance_randn_count l by simp
  show ?thesis
    by (intro conjI) (fact k1 k2 k3 raise flow' nd rc l s)+
qed

theorem data_sources_witness:
  "\<exists>sf s0.
     calculations example_lib (example_world 0) = Inr sf \<and>
     load_digits example_lib 9 = Inr example_digits \<and>
     data_train (train_test_split example_lib example_digits) = [- 2, - 1] \<and>
     baseline example_lib (train_test_split example_lib example_digits) (example_world 0) = Inr s0 \<and>
     sweep example_lib (train_test_split example_lib example_digits) sample_sizes s0 = Inr sf \<and>
     load_digits (example_lib\<lparr>load_digits := \<lambda>n. Inl (LibraryError ''IOError'')\<rparr>) 9 =
       Inl (LibraryError ''IOError'') \<and>
     calculations (example_lib\<lparr>load_digits := \<lambda>n. Inl (LibraryError ''IOError'')\<rparr>)
       (example_world 0) = Inl (LibraryError ''IOError'')"
proof -
  from example_run obtain sf where
    c: "calculations example_lib (example_world 0) = Inr sf" by blast
  note t = data_sources [where lib = example_lib and w = "example_world 0"
      and np = example_numpy and i = 0 and j = 0]
  from t c obtain digits s0 where
    ld: "load_digits example_lib 9 = Inr digits" and
    bl: "baseline example_lib (train_test_split example_lib digits) (example_world 0) = Inr s0" and
    sw: "sweep example_lib (train_test_split example_lib digits) sample_sizes s0 = Inr sf"
    by blast
  have le: "load_digits example_lib 9 = Inr example_digits"
    by (simp add: example_lib_def)
  with ld have dg: "digits = example_digits" by simp
  have tr: "data_train (train_test_split example_lib example_digits) = [- 2, - 1]"
    by (simp add: train_test_split_def centred_data_def example_lib_def example_digits_def
        Let_def)
  let ?bad = "example_lib\<lparr>load_digits := \<lambda>n. Inl (LibraryError ''IOError'')\<rparr>"
  have lb: "load_digits ?bad 9 = Inl (LibraryError ''IOError'')" by simp
  note t2 = data_sources [where lib = ?bad and w = "example_world 0"
      and np = example_numpy and i = 0 and j = 0]
  from t2 lb have cb: "calculations ?bad (example_world 0) = Inl (LibraryError ''IOError'')"
    by blast
  show ?thesis
    using c le tr bl sw lb cb unfolding dg by blast
qed

text \<open>
  C1 as stated fails for the covariance notebook: no event of it is a dataset load, and
  it calls \<open>rng.randn\<close>.
\<close>

theorem covariance_loads_no_dataset:
  "\<not> list_ex is_dataset_load (events_of (program covariance_notebook)) \<and>
   list_ex (\<lambda>e. e = Called ''rng.randn'') (events_of (program covariance_notebook))"
proof -
  have "filter (\<lambda>e. e = Called ''rng.randn'') (events_of (program covariance_notebook)) \<noteq> []"
    using covariance_randn_count by auto
  then have "list_ex (\<lambda>e. e = Called ''rng.randn'') (events_of (program covariance_notebook))"
    by (simp add: list_ex_iff filter_empty_conv)
  with covariance_no_dataset_load show ?thesis by simp
qed


section \<open>Exceptions and the recorded transcript\<close>

lemma transcript_permission_denied:
  "list_ex (\<lambda>out. case out of
               StreamOut name lns \<Rightarrow> name = ''stdout'' \<and> list_ex (sublist ''Permission denied'') lns
             | _ \<Rightarrow> False)
     (outputs covariance_publish_cell)"
  by code_simp

lemma transcript_no_error: "\<not> list_ex is_error (outputs covariance_publish_cell)"
  by (simp add: covariance_publish_cell_def)

lemma covariance_publish_source: "source covariance_publish_cell = publish_cell_source"
  by (simp add: covariance_publish_cell_def)

lemma failed_pip_does_not_raise:
  "run (\<lambda>k. k = 5) (source covariance_publish_cell) =
     (Completed, events_of (source covariance_publish_cell))"
  unfolding covariance_publish_source publish_events
  by (simp add: run_def publish_cell_source_def step_def)

lemma pip_is_event_5:
  "events_of (source covariance_publish_cell) ! 5 =
     Ran ''pip install git+https://github.com/plotly/publisher.git --upgrade''"
  unfolding covariance_publish_source publish_events by simp

text \<open>
  C3 (amended). None of the three scripts contains an exception handler, so in every run
  of any of them an import or a call that raises is the last event of the run, and the run
  ends with the exception. The transcript of the covariance notebook's last cell shows a
  permission error in the standard output of its \<^verbatim>\<open>! pip install\<close>; it records no
  exception, and a failure of that command (event 5 of the cell) does not end the cell.
\<close>

theorem exceptions_propagate:
  "\<not> list_ex has_try (program kernel_notebook) \<and>
   \<not> list_ex has_try (program covariance_notebook) \<and>
   \<not> list_ex has_try r_script \<and>
   (\<forall>ss r out evs k.
      ss \<in> {program kernel_notebook, program covariance_notebook, r_script} \<longrightarrow>
      run r ss = (out, evs) \<longrightarrow> k < length evs \<longrightarrow> can_raise (evs ! k) \<longrightarrow> r k \<longrightarrow>
      Suc k = length evs \<and> out = Raised) \<and>
   list_ex (\<lambda>out. case out of
               StreamOut name lns \<Rightarrow> name = ''stdout'' \<and> list_ex (sublist ''Permission denied'') lns
             | _ \<Rightarrow> False)
     (outputs covariance_publish_cell) \<and>
   \<not> list_ex is_error (outputs covariance_publish_cell) \<and>
   events_of (source covariance_publish_cell) ! 5 =
     Ran ''pip install git+https://github.com/plotly/publisher.git --upgrade'' \<and>
   run (\<lambda>k. k = 5) (source covariance_publish_cell) =
     (Completed, events_of (source covariance_publish_cell))"
proof -
  have p: "Suc k = length evs \<and> out = Raised"
    if "ss \<in> {program kernel_notebook, program covariance_notebook, r_script}"
      and "run r ss = (out, evs)" and "k < length evs" and "can_raise (evs ! k)" and "r k"
    for ss r out evs k
  proof -
    from that(1) have "\<not> list_ex has_try ss"
      using kernel_no_try covariance_no_try r_script_no_try by auto
    from run_uncaught [OF this that(2-)] show ?thesis .
  qed
  show ?thesis
    using kernel_no_try covariance_no_try r_script_no_try p transcript_permission_denied
      transcript_no_error pip_is_event_5 failed_pip_does_not_raise
    by (intro conjI allI impI) blast+
qed

theorem exceptions_propagate_witness:
  "r_script \<in> {program kernel_notebook, program covariance_notebook, r_script} \<and>
   run (\<lambda>k. k = 1) r_script = (Raised, [Imported ''plotly'', Called ''plotly'']) \<and>
   (1::nat) < length [Imported ''plotly'', Called ''plotly''] \<and>
   can_raise ([Imported ''plotly'', Called ''plotly''] ! 1) \<and>
   Suc 1 = length [Imported ''plotly'', Called ''plotly'']"
proof -
  have rr: "run (\<lambda>k. k = 1) r_script = (Raised, [Imported ''plotly'', Called ''plotly''])"
    by (simp add: run_def r_script_def layout_unparsable step_def)
  have m: "r_script \<in> {program kernel_notebook, program covariance_notebook, r_script}"
    by simp
  have k: "(1::nat) < length [Imported ''plotly'', Called ''plotly'']" by simp
  have c: "can_raise ([Imported ''plotly'', Called ''plotly''] ! 1)" by simp
  from exceptions_propagate have
    "\<forall>ss r out evs k.
      ss \<in> {program kernel_notebook, program covariance_notebook, r_script} \<longrightarrow>
      run r ss = (out, evs) \<longrightarrow> k < length evs \<longrightarrow> can_raise (evs ! k) \<longrightarrow> r k \<longrightarrow>
      Suc k = length evs \<and> out = Raised"
    by blast
  from this m rr k c have "Suc 1 = length [Imported ''plotly'', Called ''plotly'']"
    by blast
  with m rr k c show ?thesis by blast
qed

text \<open>
  C3 as stated fails in its last part: the transcript of the covariance notebook's last
  cell records no exception, and the cell completes when its pip command fails.
\<close>

theorem publish_transcript_records_no_exception:
  "\<not> list_ex is_error (outputs covariance_publish_cell) \<and>
   fst (run (\<lambda>k. k = 5) (source covariance_publish_cell)) = Completed"
  using transcript_no_error failed_pip_does_not_raise by simp


section \<open>Program order and processes\<close>

lemma kernel_work_no_task: "filter creates_task (events_of kernel_work) = []"
  by (simp add: kernel_cells events_of_def creates_task_def module_root_def
      concurrency_modules_def filter_concat_replicate)

lemma covariance_work_no_task: "filter creates_task (events_of covariance_work) = []"
  by (simp add: covariance_cells events_of_def creates_task_def module_root_def
      concurrency_modules_def filter_concat_replicate)

lemma publish_cell_task:
  "filter creates_task (events_of publish_cell_source) =
     [Ran ''pip install git+https://github.com/plotly/publisher.git --upgrade'']"
  by (simp add: publish_events creates_task_def module_root_def concurrency_modules_def)

lemma r_script_no_task: "filter creates_task (events_of r_script) = []"
  by (simp add: r_script_def layout_unparsable events_of_def creates_task_def module_root_def
      concurrency_modules_def)

text \<open>
  C10 (amended). In every script the statements and their calls run one after the other
  in program order: whatever raises, a run is an initial segment of that one sequence of
  events, and all of it when nothing raises. No script imports or calls anything that
  makes a thread, a coroutine or an asynchronous task. Each notebook starts one process,
  and only one: the shell command of its last cell with code,
  \<^verbatim>\<open>! pip install git+https://github.com/plotly/publisher.git --upgrade\<close>, which
  comes before \<^verbatim>\<open>import publisher\<close> and the call of \<open>publisher.publish\<close>.
  The R script starts none.
\<close>

theorem scripts_run_in_sequence:
  "prefix (snd (run r (program kernel_notebook))) (events_of (program kernel_notebook)) \<and>
   prefix (snd (run r (program covariance_notebook))) (events_of (program covariance_notebook)) \<and>
   prefix (snd (run r r_script)) (events_of r_script) \<and>
   run (\<lambda>k. False) (program kernel_notebook) = (Completed, events_of (program kernel_notebook)) \<and>
   run (\<lambda>k. False) (program covariance_notebook) =
     (Completed, events_of (program covariance_notebook)) \<and>
   filter creates_task (events_of (program kernel_notebook)) =
     [Ran ''pip install git+https://github.com/plotly/publisher.git --upgrade''] \<and>
   filter creates_task (events_of (program covariance_notebook)) =
     [Ran ''pip install git+https://github.com/plotly/publisher.git --upgrade''] \<and>
   filter creates_task (events_of r_script) = [] \<and>
   drop 5 (events_of publish_cell_source) =
     [Ran ''pip install git+https://github.com/plotly/publisher.git --upgrade'',
      Imported ''publisher'', Called ''publisher.publish'']"
proof -
  note p1 = run_prefix [OF kernel_no_try, of r]
  note p2 = run_prefix [OF covariance_no_try, of r]
  note p3 = run_prefix [OF r_script_no_try, of r]
  note r1 = run_events [OF kernel_parsable]
  note r2 = run_events [OF covariance_parsable]
  have f1: "filter creates_task (events_of (program kernel_notebook)) =
     [Ran ''pip install git+https://github.com/plotly/publisher.git --upgrade'']"
    by (simp add: kernel_program events_of_append kernel_work_no_task publish_cell_task)
  have f2: "filter creates_task (events_of (program covariance_notebook)) =
     [Ran ''pip install git+https://github.com/plotly/publisher.git --upgrade'']"
    by (simp add: covariance_program events_of_append covariance_work_no_task publish_cell_task)
  note f3 = r_script_no_task
  have d: "drop 5 (events_of publish_cell_source) =
     [Ran ''pip install git+https://github.com/plotly/publisher.git --upgrade'',
      Imported ''publisher'', Called ''publisher.publish'']"
    by (simp add: publish_events)
  show ?thesis
    by (intro conjI) (fact p1 p2 p3 r1 r2 f1 f2 f3 d)+
qed

text \<open>
  C10 as stated fails: a run of either notebook in which nothing raises starts a process,
  the pip command that is event 5 of its last cell with code.
\<close>

theorem notebooks_start_pip_process:
  "list_ex creates_task (snd (run (\<lambda>k. False) (program kernel_notebook))) \<and>
   list_ex creates_task (snd (run (\<lambda>k. False) (program covariance_notebook))) \<and>
   events_of (source kernel_publish_cell) ! 5 =
     Ran ''pip install git+https://github.com/plotly/publisher.git --upgrade'' \<and>
   events_of (source covariance_publish_cell) ! 5 =
     Ran ''pip install git+https://github.com/plotly/publisher.git --upgrade''"
proof -
  have k: "filter creates_task (events_of (program kernel_notebook)) \<noteq> []"
    by (simp add: kernel_program events_of_append kernel_work_no_task publish_cell_task)
  have c: "filter creates_task (events_of (program covariance_notebook)) \<noteq> []"
    by (simp add: covariance_program events_of_append covariance_work_no_task publish_cell_task)
  have k': "list_ex creates_task (snd (run (\<lambda>k. False) (program kernel_notebook)))"
    using k by (simp add: run_events [OF kernel_parsable] list_ex_iff filter_empty_conv)
  have c': "list_ex creates_task (snd (run (\<lambda>k. False) (program covariance_notebook)))"
    using c by (simp add: run_events [OF covariance_parsable] list_ex_iff filter_empty_conv)
  have ks: "source kernel_publish_cell = publish_cell_source"
    by (simp add: kernel_publish_cell_def)
  have e1: "events_of (source kernel_publish_cell) ! 5 =
     Ran ''pip install git+https://github.com/plotly/publisher.git --upgrade''"
    unfolding ks publish_events by simp
  show ?thesis
    by (intro conjI) (fact k' c' e1 pip_is_event_5)+
qed


section \<open>The run of the R script\<close>

text \<open>
  C5. Line 138 of the R script puts a string constant and a symbol side by side, so the
  statement \<^verbatim>\<open>layout <- list(...)\<close> cannot be read; whatever else happens, a run of the
  script does not complete and never calls \<^verbatim>\<open>p$plotly\<close>. The data the script builds
  before that is one trace of type "bar" with 51 categories and 51 values.
\<close>

theorem r_script_stops_before_plotly:
  "r_lex Top [] line_138 =
     [Sym ''family'', Punct (CHR ''=''), Str [], Sym ''Open'', Sym ''sans'',
      Str '', verdana, arial, sans-serif'', Punct (CHR '','')] \<and>
   juxtaposed (r_lex Top [] line_138) \<and>
   r_script ! 3 = Unparsable \<and>
   fst (run r r_script) \<noteq> Completed \<and>
   \<not> list_ex (\<lambda>e. e = Called ''p$plotly'') (snd (run r r_script)) \<and>
   length r_data = 1 \<and> map trace_type r_data = [''bar''] \<and>
   map (\<lambda>t. (length (trace_x t), length (trace_y t))) r_data = [(51, 51)]"
proof -
  have j: "juxtaposed (r_lex Top [] line_138)"
    by (simp add: line_138_tokens)
  have u: "r_script ! 3 = Unparsable"
    by (simp add: r_script_def layout_unparsable)
  have f: "fst (run r r_script) \<noteq> Completed"
    by (simp add: run_def r_script_def layout_unparsable step_def)
  have n: "\<not> list_ex (\<lambda>e. e = Called ''p$plotly'') (snd (run r r_script))"
    by (simp add: run_def r_script_def layout_unparsable step_def)
  have d: "length r_data = 1 \<and> map trace_type r_data = [''bar''] \<and>
    map (\<lambda>t. (length (trace_x t), length (trace_y t))) r_data = [(51, 51)]"
    by (simp add: r_data_def)
  show ?thesis using line_138_tokens j u f n d by blast
qed


end
